theory Spec2Isabelle
  imports Complex_Main
begin

section \<open>JavaScript values and the host platform\<close>

text \<open>
  The activity parser is TypeScript. Numbers are modelled as rationals (exact arithmetic),
  timestamps and durations as integers (milliseconds), strings as ASCII character lists.
  A value of type \<open>any\<close> (the payload \<open>data\<close> of a raw record, the comparison value
  of a rule condition) is a JSON value, an object being the list of its own properties in
  insertion order, each key once. Reading a property can also give a function or an object
  that the platform supplies (a method of a built-in prototype, a constructor, a prototype
  object): \<open>JNative\<close> of a name that identifies it. \<open>JNaN\<close> is the number NaN.
  Exceptions are values of \<open>js_error\<close>: a function
  that can throw returns \<open>Inl\<close> of the exception or \<open>Inr\<close> of its result. A method that
  changes the fields of its object takes the object and returns it changed. The \<open>async\<close>
  methods have no asynchronous step of their own, so a call that is awaited is an
  ordinary call.
\<close>

datatype jsval =
    JUndefined
  | JNull
  | JBool bool
  | JNum rat
  | JStr string
  | JArr "jsval list"
  | JObj "(string \<times> jsval) list"
  | JNaN
  | JNative string

datatype js_error = SyntaxError | TypeError

text \<open>
  The regular expression literals of the source, by name. The host gives their meaning.
  \<^item> QualityAnalyzer: \<open>RE_whitespaces\<close> is \<^verbatim>\<open>/\s+/\<close>,
    \<open>RE_repeated_char\<close> is \<^verbatim>\<open>/(.)\1{4,}/\<close>,
    \<open>RE_consonant_clusters\<close> is \<^verbatim>\<open>/[bcdfghjklmnpqrstvwxyz]{5,}/i\<close>,
    \<open>RE_vowels\<close> is \<^verbatim>\<open>/[aeiou]/gi\<close>,
    \<open>RE_punctuation\<close> is \<^verbatim>\<open>/[.!?]/\<close>,
    \<open>RE_capitalization\<close> is \<^verbatim>\<open>/^[A-Z]/\<close>,
    \<open>RE_space\<close> is \<^verbatim>\<open>/\s/\<close>;
    the anomaly patterns \<open>RE_password\<close> \<^verbatim>\<open>/password|passwd|pwd/i\<close>,
    \<open>RE_ssn\<close> \<^verbatim>\<open>/\b\d{3}-?\d{2}-?\d{4}\b/\<close>,
    \<open>RE_email\<close> \<^verbatim>\<open>/\b[A-Z0-9._%+-]+@[A-Z0-9.-]+\.[A-Z]{2,}\b/i\<close>,
    \<open>RE_credit_card\<close> \<^verbatim>\<open>/\b(?:\d{4}[-\s]?){3}\d{4}\b/\<close>,
    \<open>RE_private_key\<close> \<^verbatim>\<open>/-----BEGIN.*KEY-----/\<close>.
  \<^item> ActivityParser, \<open>codeIndicators\<close> in their order:
    \<open>RE_code_function\<close> \<^verbatim>\<open>/function\s+\w+\s*\(/\<close>,
    \<open>RE_code_class\<close> \<^verbatim>\<open>/class\s+\w+/\<close>,
    \<open>RE_code_import\<close> \<^verbatim>\<open>/import\s+.+from/\<close>,
    \<open>RE_code_const\<close> \<^verbatim>\<open>/const\s+\w+\s*=/\<close>,
    \<open>RE_code_let\<close> \<^verbatim>\<open>/let\s+\w+\s*=/\<close>,
    \<open>RE_code_if\<close> \<^verbatim>\<open>/if\s*\(.+\)\s*{/\<close>,
    \<open>RE_code_for\<close> \<^verbatim>\<open>/for\s*\(.+\)\s*{/\<close>,
    \<open>RE_code_annotation\<close> \<^verbatim>\<open>/\w+\s*:\s*\w+\s*[,;]/\<close>,
    \<open>RE_code_call\<close> \<^verbatim>\<open>/\w+\(\s*\)\s*{/\<close>,
    \<open>RE_code_punctuation\<close> \<^verbatim>\<open>/[{}[\];]/\<close>;
    \<open>docIndicators\<close> in their order:
    \<open>RE_doc_header\<close> \<^verbatim>\<open>/^#{1,6}\s+/m\<close>,
    \<open>RE_doc_bullet\<close> \<^verbatim>\<open>/^\*\s+/m\<close>,
    \<open>RE_doc_numbered\<close> \<^verbatim>\<open>/^\d+\.\s+/m\<close>,
    \<open>RE_doc_link\<close> \<^verbatim>\<open>/\[.+\]\(.+\)/\<close>,
    \<open>RE_doc_code_block\<close> \<^verbatim>\<open>/```[\s\S]*```/\<close>,
    \<open>RE_doc_mention\<close> \<^verbatim>\<open>/@\w+/\<close>.
  \<^item> ContentExtractor: \<open>RE_lang_zh\<close> \<^verbatim>\<open>/[\u4e00-\u9fa5]/\<close>,
    \<open>RE_lang_ja\<close> \<^verbatim>\<open>/[\u3040-\u309f\u30a0-\u30ff]/\<close>,
    \<open>RE_lang_ko\<close> \<^verbatim>\<open>/[\u1100-\u11ff\u3130-\u318f\uac00-\ud7af]/\<close>,
    \<open>RE_lang_ru\<close> \<^verbatim>\<open>/[\u0430-\u044f\u0410-\u042f]/\<close> (the source writes the four
    Cyrillic letters themselves, not their escapes),
    \<open>RE_words\<close> \<^verbatim>\<open>/\b[a-z]+\b/g\<close>;
    \<open>programmingPatterns\<close> in their order:
    \<open>RE_tech_declaration\<close> \<^verbatim>\<open>/\b(function|class|interface|struct|enum)\s+(\w+)/gi\<close>,
    \<open>RE_tech_import\<close> \<^verbatim>\<open>/\b(import|require|include)\s+[\w.\/]+/gi\<close>,
    \<open>RE_tech_call\<close> \<^verbatim>\<open>/\b\w+\(\)/g\<close>,
    \<open>RE_tech_camel_case\<close> \<^verbatim>\<open>/\b[A-Z][a-z]+[A-Z]\w*/g\<close>,
    \<open>RE_tech_constant\<close> \<^verbatim>\<open>/\b[A-Z_]+[A-Z_]+\b/g\<close>;
    \<open>RE_url\<close> \<^verbatim>\<open>/https?:\/\/[^\s]+/gi\<close>,
    \<open>RE_path_in_title\<close> \<^verbatim>\<open>/[A-Za-z]:\\[^|<>:*?"]+|\/[^|<>:*?"]+/g\<close>,
    \<open>RE_path_in_text\<close> \<^verbatim>\<open>/(?:^|\s)([A-Za-z]:\\[^\s]+|\/[^\s]+\.[a-z]{2,4})/gi\<close>,
    \<open>RE_git_command\<close> \<^verbatim>\<open>/git\s+\w+/g\<close>.
\<close>

datatype regex =
    RE_whitespaces | RE_repeated_char | RE_consonant_clusters | RE_vowels
  | RE_punctuation | RE_capitalization | RE_space
  | RE_password | RE_ssn | RE_email | RE_credit_card | RE_private_key
  | RE_code_function | RE_code_class | RE_code_import | RE_code_const | RE_code_let
  | RE_code_if | RE_code_for | RE_code_annotation | RE_code_call | RE_code_punctuation
  | RE_doc_header | RE_doc_bullet | RE_doc_numbered | RE_doc_link | RE_doc_code_block
  | RE_doc_mention
  | RE_lang_zh | RE_lang_ja | RE_lang_ko | RE_lang_ru | RE_words
  | RE_tech_declaration | RE_tech_import | RE_tech_call | RE_tech_camel_case | RE_tech_constant
  | RE_url | RE_path_in_title | RE_path_in_text | RE_git_command

text \<open>A parsed URL, as far as the parser reads it: \<open>hostname\<close>, \<open>pathname\<close>,
  \<open>searchParams\<close>, and \<open>toString()\<close> after \<open>search\<close> was replaced by the given parameters.\<close>

record URL =
  hostname :: string
  pathname :: string
  searchParams :: "(string \<times> string) list"
  href_with_search :: "(string \<times> string) list \<Rightarrow> string"

text \<open>
  What the JavaScript platform supplies and the repository does not define: the regular
  expression engine, the URL parser, and the conversions between numbers and strings.
  Every function below that needs one of them takes the host as its first argument, and
  every theorem holds for all hosts.
  \<^item> \<open>RegExp_new p\<close> is \<open>new RegExp(p)\<close> for a string \<open>p\<close>: \<open>None\<close> when the constructor throws a
    SyntaxError, otherwise the compiled expression as its \<open>exec\<close> function, which gives
    \<open>match[0]\<close> and \<open>match[1]\<close> (\<open>None\<close> for \<open>undefined\<close>) on a match.
  \<^item> \<open>regex_test l s\<close> is \<open>l.test(s)\<close> for a regular expression literal \<open>l\<close>;
    \<open>regex_match_all l s\<close> is \<open>s.match(l) || []\<close> for a literal with the \<open>g\<close> flag;
    \<open>regex_split l s\<close> is \<open>s.split(l)\<close>.
  \<^item> \<open>URL_new s\<close> is \<open>new URL(s)\<close>, \<open>None\<close> when it throws a TypeError.
  \<^item> \<open>StringToNumber s\<close> is \<open>Number(s)\<close>, \<open>None\<close> for NaN; \<open>NumberToString n\<close> is
    \<open>String(n)\<close>.
  \<^item> \<open>inherited kind k\<close> is the member \<open>k\<close> that an array, a string, a number or a
    boolean inherits from its prototype chain, \<open>JUndefined\<close> when there is none (the own
    properties, \<open>length\<close> and the indices, are not the host's);
    \<open>native_get n k\<close> is the property \<open>k\<close> of the built-in \<open>n\<close>, and \<open>NativeToString n\<close>
    is \<open>String(n)\<close> for it.
\<close>

datatype js_kind = KArray | KString | KNumber | KBoolean

record js_host =
  RegExp_new :: "string \<Rightarrow> (string \<Rightarrow> (string \<times> string option) option) option"
  regex_test :: "regex \<Rightarrow> string \<Rightarrow> bool"
  regex_match_all :: "regex \<Rightarrow> string \<Rightarrow> string list"
  regex_split :: "regex \<Rightarrow> string \<Rightarrow> string list"
  URL_new :: "string \<Rightarrow> URL option"
  StringToNumber :: "string \<Rightarrow> rat option"
  NumberToString :: "rat \<Rightarrow> string"
  inherited :: "js_kind \<Rightarrow> string \<Rightarrow> jsval"
  native_get :: "string \<Rightarrow> string \<Rightarrow> jsval"
  NativeToString :: "string \<Rightarrow> string"

text \<open>Truthiness of a value.\<close>

fun truthy :: "jsval \<Rightarrow> bool" where
  "truthy JUndefined = False"
| "truthy JNull = False"
| "truthy (JBool b) = b"
| "truthy (JNum n) = (n \<noteq> 0)"
| "truthy (JStr s) = (s \<noteq> [])"
| "truthy (JArr xs) = True"
| "truthy (JObj kvs) = True"
| "truthy JNaN = False"
| "truthy (JNative n) = True"

text \<open>An optional string field is truthy when present and non-empty.\<close>

fun truthy_str :: "string option \<Rightarrow> bool" where
  "truthy_str None = False"
| "truthy_str (Some s) = (s \<noteq> [])"

text \<open>\<open>String.prototype.toLowerCase\<close> and \<open>String.prototype.includes\<close> on ASCII strings.\<close>

definition lower_char :: "char \<Rightarrow> char" where
  "lower_char c =
     (case map_of (zip ''ABCDEFGHIJKLMNOPQRSTUVWXYZ'' ''abcdefghijklmnopqrstuvwxyz'') c of
        None \<Rightarrow> c | Some d \<Rightarrow> d)"

definition toLowerCase :: "string \<Rightarrow> string" where
  "toLowerCase s = map lower_char s"

fun str_includes :: "string \<Rightarrow> string \<Rightarrow> bool" where
  "str_includes [] t = (t = [])"
| "str_includes (c # cs) t = (take (length t) (c # cs) = t \<or> str_includes cs t)"

text \<open>Canonical array indices: the decimal numerals without a leading zero.\<close>

definition digit_val :: "char \<Rightarrow> nat option" where
  "digit_val c = map_of (zip ''0123456789'' [0, 1, 2, 3, 4, 5, 6, 7, 8, 9]) c"

fun digits_val :: "nat \<Rightarrow> string \<Rightarrow> nat option" where
  "digits_val acc [] = Some acc"
| "digits_val acc (c # cs) =
     (case digit_val c of None \<Rightarrow> None | Some d \<Rightarrow> digits_val (10 * acc + d) cs)"

definition array_index :: "string \<Rightarrow> nat option" where
  "array_index k =
     (if k = [] \<or> (hd k = CHR ''0'' \<and> length k > 1) then None else digits_val 0 k)"

text \<open>
  The objects of the parser are object literals and objects made by \<open>JSON.parse\<close>; their
  prototype is \<open>Object.prototype\<close>, whose properties (ECMAScript, with its annex B) every
  one of them inherits under these names. A key is plain when it is none of them.
\<close>

definition Object_prototype_members :: "string list" where
  "Object_prototype_members =
     [''constructor'', ''__defineGetter__'', ''__defineSetter__'', ''hasOwnProperty'',
      ''__lookupGetter__'', ''__lookupSetter__'', ''isPrototypeOf'', ''propertyIsEnumerable'',
      ''toString'', ''valueOf'', ''__proto__'', ''toLocaleString'']"

definition plain_key :: "string \<Rightarrow> bool" where
  "plain_key k = (\<not> List.member Object_prototype_members k)"

text \<open>
  Reading the property \<open>k\<close> of a value that is neither \<open>undefined\<close> nor \<open>null\<close>
  (\<open>v[k]\<close>): the own property when there is one, otherwise the member inherited along
  the prototype chain. What an object inherits from \<open>Object.prototype\<close> under the name
  \<open>k\<close> is the built-in \<open>JNative (''Object.prototype.'' @ k)\<close> (for \<open>constructor\<close> the
  function \<open>Object\<close>, for \<open>__proto__\<close> the object \<open>Object.prototype\<close> itself, for the
  other names a method).
\<close>

fun js_get :: "js_host \<Rightarrow> jsval \<Rightarrow> string \<Rightarrow> jsval" where
  "js_get h (JObj kvs) k =
     (case map_of kvs k of
        Some v \<Rightarrow> v
      | None \<Rightarrow> if plain_key k then JUndefined else JNative (''Object.prototype.'' @ k))"
| "js_get h (JArr xs) k =
     (if k = ''length'' then JNum (of_nat (length xs))
      else case array_index k of
             None \<Rightarrow> inherited h KArray k
           | Some i \<Rightarrow> if i < length xs then xs ! i else inherited h KArray k)"
| "js_get h (JStr s) k =
     (if k = ''length'' then JNum (of_nat (length s))
      else case array_index k of
             None \<Rightarrow> inherited h KString k
           | Some i \<Rightarrow> if i < length s then JStr [s ! i] else inherited h KString k)"
| "js_get h (JNum n) k = inherited h KNumber k"
| "js_get h JNaN k = inherited h KNumber k"
| "js_get h (JBool b) k = inherited h KBoolean k"
| "js_get h (JNative n) k = native_get h n k"
| "js_get h JUndefined k = JUndefined"
| "js_get h JNull k = JUndefined"

text \<open>\<open>obj[k] = v\<close> on a Map or on the own properties of an object.\<close>

fun set_key :: "string \<Rightarrow> 'v \<Rightarrow> (string \<times> 'v) list \<Rightarrow> (string \<times> 'v) list" where
  "set_key k v [] = [(k, v)]"
| "set_key k v ((k', v') # kvs) =
     (if k' = k then (k', v) # kvs else (k', v') # set_key k v kvs)"

text \<open>
  \<open>obj[k] = v\<close> on a plain object for a number or a string \<open>v\<close>. The key \<open>__proto__\<close>
  is an accessor of \<open>Object.prototype\<close>: the assignment calls its setter, which ignores
  a value that is neither an object nor \<open>null\<close>, and no property is written. The other
  inherited members are writable data properties, so the assignment makes an own property
  as for any other key.
\<close>

definition assign_key :: "string \<Rightarrow> 'v \<Rightarrow> (string \<times> 'v) list \<Rightarrow> (string \<times> 'v) list" where
  "assign_key k v obj = (if k = ''__proto__'' then obj else set_key k v obj)"

text \<open>\<open>Object.keys(v).length\<close> for a truthy value.\<close>

fun keys_length :: "jsval \<Rightarrow> nat" where
  "keys_length (JObj kvs) = length kvs"
| "keys_length (JArr xs) = length xs"
| "keys_length (JStr s) = length s"
| "keys_length v = 0"

text \<open>\<open>xs.join(sep)\<close> for an array of strings.\<close>

fun join_with :: "string \<Rightarrow> string list \<Rightarrow> string" where
  "join_with sep [] = []"
| "join_with sep [x] = x"
| "join_with sep (x # xs) = x @ sep @ join_with sep xs"

text \<open>The first exception in a list of outcomes.\<close>

fun first_error :: "(js_error + 'a) list \<Rightarrow> js_error option" where
  "first_error [] = None"
| "first_error (r # rs) = (case r of Inl e \<Rightarrow> Some e | Inr x \<Rightarrow> first_error rs)"

text \<open>
  \<open>String(v)\<close>, also the conversion in a template literal and in \<open>join\<close>. An array is its
  elements joined by commas, \<open>undefined\<close> and \<open>null\<close> elements giving the empty string. An
  object is \<open>[object Object]\<close>, printed by the inherited \<open>toString\<close>; when the object has
  an own property \<open>toString\<close> (a JSON value, which cannot be called) the conversion finds
  no method that gives a primitive and throws a TypeError. A built-in is printed by the
  host.
\<close>

fun ToString :: "js_host \<Rightarrow> jsval \<Rightarrow> js_error + string" where
  "ToString h JUndefined = Inr ''undefined''"
| "ToString h JNull = Inr ''null''"
| "ToString h (JBool b) = Inr (if b then ''true'' else ''false'')"
| "ToString h (JNum n) = Inr (NumberToString h n)"
| "ToString h (JStr s) = Inr s"
| "ToString h (JArr xs) =
     (let rs = map (\<lambda>x. if x = JUndefined \<or> x = JNull then Inr [] else ToString h x) xs
      in case first_error rs of
           Some e \<Rightarrow> Inl e
         | None \<Rightarrow> Inr (join_with '','' (map projr rs)))"
| "ToString h (JObj kvs) =
     (case map_of kvs ''toString'' of
        None \<Rightarrow> Inr ''[object Object]''
      | Some v \<Rightarrow> Inl TypeError)"
| "ToString h JNaN = Inr ''NaN''"
| "ToString h (JNative n) = Inr (NativeToString h n)"

text \<open>\<open>Number(v)\<close>, also the conversion of an operand of \<open>>\<close> and \<open><\<close> when the other one is
  a number; \<open>None\<close> is NaN. An array, an object or a built-in is converted through its
  string.\<close>

fun ToNumber :: "js_host \<Rightarrow> jsval \<Rightarrow> js_error + rat option" where
  "ToNumber h JUndefined = Inr None"
| "ToNumber h JNull = Inr (Some 0)"
| "ToNumber h (JBool b) = Inr (Some (if b then 1 else 0))"
| "ToNumber h (JNum n) = Inr (Some n)"
| "ToNumber h (JStr s) = Inr (StringToNumber h s)"
| "ToNumber h JNaN = Inr None"
| "ToNumber h v = (case ToString h v of Inl e \<Rightarrow> Inl e | Inr s \<Rightarrow> Inr (StringToNumber h s))"

text \<open>\<open>v > n\<close> for a number \<open>n\<close>: false when \<open>Number(v)\<close> is NaN.\<close>

definition js_gt_num :: "js_host \<Rightarrow> jsval \<Rightarrow> rat \<Rightarrow> js_error + bool" where
  "js_gt_num h v n =
     (case ToNumber h v of
        Inl e \<Rightarrow> Inl e
      | Inr None \<Rightarrow> Inr False
      | Inr (Some m) \<Rightarrow> Inr (m > n))"

text \<open>\<open>new RegExp(v)\<close> for any value: the pattern is empty for \<open>undefined\<close> and
  \<open>String(v)\<close> otherwise; a pattern that is not a regular expression throws a
  SyntaxError.\<close>

definition RegExp_of ::
  "js_host \<Rightarrow> jsval \<Rightarrow> js_error + (string \<Rightarrow> (string \<times> string option) option)" where
  "RegExp_of h v =
     (case (if v = JUndefined then Inr [] else ToString h v) of
        Inl e \<Rightarrow> Inl e
      | Inr p \<Rightarrow> (case RegExp_new h p of None \<Rightarrow> Inl SyntaxError | Some re \<Rightarrow> Inr re))"


text \<open>\<open>v === w\<close> between a value that was read or computed and a value of a rule or a
  literal: arrays, objects and built-ins are compared by reference, and the two never are
  the same object; NaN equals nothing.\<close>

fun strict_equal :: "jsval \<Rightarrow> jsval \<Rightarrow> bool" where
  "strict_equal JUndefined JUndefined = True"
| "strict_equal JNull JNull = True"
| "strict_equal (JBool a) (JBool b) = (a = b)"
| "strict_equal (JNum a) (JNum b) = (a = b)"
| "strict_equal (JStr a) (JStr b) = (a = b)"
| "strict_equal v w = False"

section \<open>Raw records\<close>

record ApplicationContext =
  ctx_application :: string
  ctx_window_title :: string
  ctx_process_name :: "string option"
  ctx_url :: "string option"

record RawActivity =
  raw_id :: string
  raw_timestamp :: int
  raw_device_id :: string
  raw_session_id :: string
  raw_type :: string
  raw_data :: jsval
  raw_processed_text :: "string option"
  raw_context :: "ApplicationContext option"

section \<open>QualityAnalyzer\<close>

record QualityThresholds =
  min_confidence :: rat
  min_text_length :: rat
  max_idle_duration :: rat

record QualityAnalyzer =
  thresholds :: QualityThresholds
  qualityScores :: "rat list"
  anomalyPatterns :: "regex list"

definition initializeAnomalyPatterns :: "regex list" where
  "initializeAnomalyPatterns =
     [RE_password, RE_ssn, RE_email, RE_credit_card, RE_private_key]"

definition QualityAnalyzer_new :: "QualityThresholds \<Rightarrow> QualityAnalyzer" where
  "QualityAnalyzer_new th =
     \<lparr>thresholds = th, qualityScores = [], anomalyPatterns = initializeAnomalyPatterns\<rparr>"

text \<open>\<open>if (present) { score += w; fields += w; }\<close> on the pair \<open>(score, fields)\<close>.\<close>

definition count_field :: "bool \<Rightarrow> rat \<Rightarrow> rat \<times> rat \<Rightarrow> rat \<times> rat" where
  "count_field present w sf = (if present then (fst sf + w, snd sf + w) else sf)"

definition calculateCompletenessScore :: "RawActivity \<Rightarrow> rat" where
  "calculateCompletenessScore a =
     (let sf0 = (0, 0);
          sf1 = count_field (raw_id a \<noteq> []) 1 sf0;
          sf2 = count_field (raw_timestamp a \<noteq> 0) 1 sf1;
          sf3 = count_field (raw_device_id a \<noteq> []) 1 sf2;
          sf4 = count_field (raw_session_id a \<noteq> []) 1 sf3;
          sf5 = count_field (raw_type a \<noteq> []) 1 sf4;
          sf6 = count_field (truthy (raw_data a) \<and> keys_length (raw_data a) > 0) (1/2) sf5;
          sf7 = count_field (truthy_str (raw_processed_text a)) (1/2) sf6;
          sf8 = count_field (raw_context a \<noteq> None) (1/2) sf7
      in if snd sf8 > 0 then fst sf8 / snd sf8 else 0)"

definition hasRepetitivePattern :: "js_host \<Rightarrow> string \<Rightarrow> bool" where
  "hasRepetitivePattern h text =
     (if regex_test h RE_repeated_char text then True
      else let ws = regex_split h RE_whitespaces text
           in length ws > 5 \<and> of_nat (card (set ws)) < (of_nat (length ws) :: rat) * (1/2))"

definition looksLikeGibberish :: "js_host \<Rightarrow> string \<Rightarrow> bool" where
  "looksLikeGibberish h text =
     (if regex_test h RE_consonant_clusters text then True
      else let vowelRatio =
                 (of_nat (length (regex_match_all h RE_vowels text)) :: rat)
                   / of_nat (length text)
           in vowelRatio < 1/10)"

definition hasProperStructure :: "js_host \<Rightarrow> string \<Rightarrow> bool" where
  "hasProperStructure h text =
     (let hasPunctuation = regex_test h RE_punctuation text;
          hasCapitalization = regex_test h RE_capitalization text;
          hasSpaces = regex_test h RE_space text
      in hasPunctuation \<or> (hasCapitalization \<and> hasSpaces))"

definition calculateTextQualityScore :: "js_host \<Rightarrow> QualityThresholds \<Rightarrow> string \<Rightarrow> rat" where
  "calculateTextQualityScore h th text =
     (if text = [] then 0
      else
        let s0 = 1;
            s1 = (if of_nat (length text) < min_text_length th then s0 * (5/10) else s0);
            wordCount = length (filter (\<lambda>w. length w > 0) (regex_split h RE_whitespaces text));
            s2 = (if wordCount < 3 then s1 * (7/10) else s1);
            s3 = (if hasRepetitivePattern h text then s2 * (6/10) else s2);
            s4 = (if looksLikeGibberish h text then s3 * (3/10) else s3);
            s5 = (if hasProperStructure h text then s4 * (12/10) else s4)
        in min 1 s5)"

definition isValidUrl :: "js_host \<Rightarrow> string \<Rightarrow> bool" where
  "isValidUrl h u = (URL_new h u \<noteq> None)"

definition calculateContextScore :: "js_host \<Rightarrow> ApplicationContext \<Rightarrow> rat" where
  "calculateContextScore h c =
     (let sf0 = (0, 0);
          sf1 = count_field (ctx_application c \<noteq> []) 1 sf0;
          sf2 = count_field (ctx_window_title c \<noteq> []) 1 sf1;
          sf3 = count_field (truthy_str (ctx_process_name c)) (1/2) sf2;
          sf4 = count_field (truthy_str (ctx_url c)) (1/2) sf3;
          score = (if truthy_str (ctx_url c) \<and> \<not> isValidUrl h (the (ctx_url c))
                   then fst sf4 - 1/2 else fst sf4);
          fields = snd sf4
      in if fields > 0 then max 0 (score / fields) else 0)"

text \<open>\<open>now\<close> is the value of \<open>Date.now()\<close> at the call.\<close>

definition calculateTemporalScore :: "int \<Rightarrow> RawActivity \<Rightarrow> rat" where
  "calculateTemporalScore now a =
     (if raw_timestamp a = 0 then 0
      else if raw_timestamp a > now then 3/10
      else if now - raw_timestamp a > 24 * 60 * 60 * 1000 then 7/10
      else 1)"

text \<open>The comparison \<open>activity.data.keys_per_second > 20\<close> converts the payload's value
  to a number, which throws when the value cannot be converted.\<close>

definition detectAnomalies :: "js_host \<Rightarrow> QualityAnalyzer \<Rightarrow> RawActivity \<Rightarrow> js_error + rat" where
  "detectAnomalies h qa a =
     (let c1 = (if truthy_str (raw_processed_text a)
                then length (filter (\<lambda>p. regex_test h p (the (raw_processed_text a)))
                               (anomalyPatterns qa))
                else 0)
      in case (if raw_type a = ''keyboard'' \<and> truthy (raw_data a)
               then js_gt_num h (js_get h (raw_data a) ''keys_per_second'') 20
               else Inr False) of
           Inl e \<Rightarrow> Inl e
         | Inr fast \<Rightarrow>
             let c2 = (if fast then c1 + 1 else c1);
                 anomalyCount = (if raw_type a = ''mouse'' \<and> truthy_str (raw_processed_text a)
                                 then c2 + 1 else c2)
             in Inr (if anomalyCount = 0 then 1
                     else max (3/10) (1 - of_nat anomalyCount * (2/10))))"

text \<open>The array \<open>scores\<close> as \<open>analyze\<close> fills it with \<open>push\<close>: the text and the context
  score are pushed only when their field is there, so the later scores move up.\<close>

definition analyze_scores ::
  "js_host \<Rightarrow> QualityAnalyzer \<Rightarrow> int \<Rightarrow> RawActivity \<Rightarrow> js_error + rat list" where
  "analyze_scores h qa now a =
     (case detectAnomalies h qa a of
        Inl e \<Rightarrow> Inl e
      | Inr anomalyScore \<Rightarrow>
          Inr ([calculateCompletenessScore a]
               @ (if truthy_str (raw_processed_text a)
                  then [calculateTextQualityScore h (thresholds qa) (the (raw_processed_text a))]
                  else [])
               @ (case raw_context a of None \<Rightarrow> [] | Some c \<Rightarrow> [calculateContextScore h c])
               @ [calculateTemporalScore now a]
               @ [anomalyScore]))"

definition weights :: "rat list" where
  "weights = [2/10, 3/10, 2/10, 2/10, 1/10]"

text \<open>\<open>weights[i] || 0.2\<close>\<close>

definition weight_at :: "nat \<Rightarrow> rat" where
  "weight_at i = (if i < length weights \<and> weights ! i \<noteq> 0 then weights ! i else 2/10)"

text \<open>The loop \<open>for (i = 0; i < scores.length; i++)\<close> from index \<open>i\<close> on, over the
  scores not yet visited, on the pair \<open>(totalScore, totalWeight)\<close>.\<close>

fun weighted_loop :: "nat \<Rightarrow> rat list \<Rightarrow> rat \<times> rat \<Rightarrow> rat \<times> rat" where
  "weighted_loop i [] tw = tw"
| "weighted_loop i (s # ss) tw =
     weighted_loop (Suc i) ss (fst tw + s * weight_at i, snd tw + weight_at i)"

definition finalScore :: "rat list \<Rightarrow> rat" where
  "finalScore scores =
     (let tw = weighted_loop 0 scores (0, 0)
      in if snd tw > 0 then fst tw / snd tw else 0)"

definition record_score :: "rat \<Rightarrow> rat list \<Rightarrow> rat list" where
  "record_score s hist =
     (let hist' = hist @ [s] in if length hist' > 1000 then tl hist' else hist')"

text \<open>\<open>analyze\<close> returns the score and the analyzer with the score recorded, or the
  exception of \<open>detectAnomalies\<close> and the analyzer as it was.\<close>

definition analyze ::
  "js_host \<Rightarrow> QualityAnalyzer \<Rightarrow> int \<Rightarrow> RawActivity \<Rightarrow> (js_error + rat) \<times> QualityAnalyzer" where
  "analyze h qa now a =
     (case analyze_scores h qa now a of
        Inl e \<Rightarrow> (Inl e, qa)
      | Inr scores \<Rightarrow>
          let s = finalScore scores
          in (Inr s, qa\<lparr>qualityScores := record_score s (qualityScores qa)\<rparr>))"

section \<open>SessionManager\<close>

text \<open>The enums \<open>ActivityType\<close> and \<open>ActivityCategory\<close> are string enums; a rule may put
  any string in their place (\<open>ruleResults.type as ActivityType\<close>), so both are strings here.\<close>

definition TYPING :: string where "TYPING = ''typing''"
definition CLICKING :: string where "CLICKING = ''clicking''"
definition SCROLLING :: string where "SCROLLING = ''scrolling''"
definition READING :: string where "READING = ''reading''"
definition CODING :: string where "CODING = ''coding''"
definition BROWSING :: string where "BROWSING = ''browsing''"
definition COMMUNICATING :: string where "COMMUNICATING = ''communicating''"
definition DOCUMENTING :: string where "DOCUMENTING = ''documenting''"
definition IDLE :: string where "IDLE = ''idle''"

definition PRODUCTIVE :: string where "PRODUCTIVE = ''productive''"
definition NEUTRAL :: string where "NEUTRAL = ''neutral''"
definition DISTRACTING :: string where "DISTRACTING = ''distracting''"
definition BREAK :: string where "BREAK = ''break''"
definition COMMUNICATION :: string where "COMMUNICATION = ''communication''"
definition LEARNING :: string where "LEARNING = ''learning''"
definition ENTERTAINMENT :: string where "ENTERTAINMENT = ''entertainment''"

record ActivityMetadata =
  confidence :: rat
  parser_version :: string
  rules_applied :: "string list"
  meta_tags :: "string list"

record ParsedActivity =
  act_id :: string
  act_timestamp :: int
  act_device_id :: string
  act_session_id :: string
  act_type :: string
  act_duration :: "int option"
  act_category :: string
  act_application :: string
  act_window_title :: string
  act_content :: "(string \<times> jsval) list"
  act_metadata :: ActivityMetadata
  act_quality_score :: rat

record SessionData =
  sd_session_id :: string
  sd_device_id :: string
  start_time :: int
  end_time :: "int option"
  activities :: "ParsedActivity list"

record SessionManager =
  sessions :: "string \<rightharpoonup> SessionData"
  activityBuffer :: "string \<rightharpoonup> ParsedActivity list"

definition SessionManager_new :: SessionManager where
  "SessionManager_new = \<lparr>sessions = Map.empty, activityBuffer = Map.empty\<rparr>"

definition MAX_IDLE_TIME :: int where
  "MAX_IDLE_TIME = 5 * 60 * 1000"

definition createSession :: "ParsedActivity \<Rightarrow> SessionData" where
  "createSession a =
     \<lparr>sd_session_id = act_session_id a, sd_device_id = act_device_id a,
      start_time = act_timestamp a, end_time = None, activities = []\<rparr>"

definition bufferActivity :: "string \<Rightarrow> ParsedActivity \<Rightarrow> SessionManager \<Rightarrow> SessionManager" where
  "bufferActivity sessionId a sm =
     (let buffer = (case activityBuffer sm sessionId of None \<Rightarrow> [] | Some b \<Rightarrow> b);
          pushed = buffer @ [a];
          kept = (if length pushed > 100 then tl pushed else pushed)
      in sm\<lparr>activityBuffer := (activityBuffer sm)(sessionId \<mapsto> kept)\<rparr>)"

definition addActivity :: "SessionManager \<Rightarrow> ParsedActivity \<Rightarrow> SessionManager" where
  "addActivity sm a =
     (let sessionId = act_session_id a;
          session = (case sessions sm sessionId of None \<Rightarrow> createSession a | Some s \<Rightarrow> s);
          pushed = session\<lparr>activities := activities session @ [a]\<rparr>;
          ended = (case end_time pushed of
                     None \<Rightarrow> pushed\<lparr>end_time := Some (act_timestamp a)\<rparr>
                   | Some e \<Rightarrow> if act_timestamp a > e
                              then pushed\<lparr>end_time := Some (act_timestamp a)\<rparr> else pushed)
      in bufferActivity sessionId a (sm\<lparr>sessions := (sessions sm)(sessionId \<mapsto> ended)\<rparr>))"

text \<open>\<open>Array.prototype.findIndex\<close>: the first index where the predicate holds, or -1.\<close>

fun findIndex_from :: "int \<Rightarrow> ('a \<Rightarrow> bool) \<Rightarrow> 'a list \<Rightarrow> int" where
  "findIndex_from i P [] = -1"
| "findIndex_from i P (x # xs) = (if P x then i else findIndex_from (i + 1) P xs)"

definition findIndex :: "('a \<Rightarrow> bool) \<Rightarrow> 'a list \<Rightarrow> int" where
  "findIndex P xs = findIndex_from 0 P xs"

definition calculateDuration :: "SessionManager \<Rightarrow> ParsedActivity \<Rightarrow> int option" where
  "calculateDuration sm a =
     (let buffer = (case activityBuffer sm (act_session_id a) of None \<Rightarrow> [] | Some b \<Rightarrow> b)
      in if length buffer < 2 then None
         else let currentIndex = findIndex (\<lambda>b. act_id b = act_id a) buffer
              in if currentIndex \<le> 0 then None
                 else let previousActivity = buffer ! nat (currentIndex - 1);
                          duration = act_timestamp a - act_timestamp previousActivity
                      in if duration > 0 \<and> duration < MAX_IDLE_TIME then Some duration
                         else None)"

text \<open>
  A value of \<open>activityBreakdown\<close> and \<open>categoryBreakdown\<close>: a number, or a string once
  \<open>+\<close> has concatenated.
\<close>

datatype bucket_value = Number int | Text string

text \<open>
  \<open>obj[k] = (obj[k] || 0) + d\<close> on \<open>activityBreakdown\<close> and \<open>categoryBreakdown\<close>, which
  are plain objects (\<open>{}\<close>): the read finds the own property or the member inherited from
  \<open>Object.prototype\<close>.
  \<^item> An own number \<open>n\<close> gives \<open>n + d\<close> (for \<open>n = 0\<close> the \<open>0\<close> of \<open>||\<close>).
  \<^item> An own string is kept when it is not empty, and \<open>+\<close> appends the digits of \<open>d\<close>.
  \<^item> A plain key that is not there reads \<open>undefined\<close>, and the bucket is \<open>0 + d\<close>.
  \<^item> The name of an inherited member that is not an own property reads the built-in (a
    function, or \<open>Object.prototype\<close> for \<open>__proto__\<close>), which is truthy; \<open>+\<close> converts it to
    its string and appends the digits of \<open>d\<close>.
  The assignment then writes the value, except for the key \<open>__proto__\<close>.
\<close>

definition add_to_key ::
  "js_host \<Rightarrow> string \<Rightarrow> int \<Rightarrow> (string \<times> bucket_value) list \<Rightarrow> (string \<times> bucket_value) list" where
  "add_to_key h k d obj =
     assign_key k
       (case map_of obj k of
          Some (Number n) \<Rightarrow> Number ((if n \<noteq> 0 then n else 0) + d)
        | Some (Text s) \<Rightarrow>
            if s \<noteq> [] then Text (s @ NumberToString h (of_int d)) else Number (0 + d)
        | None \<Rightarrow>
            if plain_key k then Number (0 + d)
            else Text (NativeToString h (''Object.prototype.'' @ k) @ NumberToString h (of_int d)))
       obj"

text \<open>\<open>m.set(k, (m.get(k) || 0) + d)\<close> on the Map \<open>applicationDurations\<close>, whose keys keep
  their insertion order; a Map has no inherited keys.\<close>

fun add_to_entry :: "string \<Rightarrow> int \<Rightarrow> (string \<times> int) list \<Rightarrow> (string \<times> int) list" where
  "add_to_entry k d [] = [(k, 0 + d)]"
| "add_to_entry k d ((k', v) # kvs) =
     (if k' = k then (k', v + d) # kvs else (k', v) # add_to_entry k d kvs)"

record TopApplication =
  app_name :: string
  app_duration :: int
  activity_count :: nat
  app_category :: string

text \<open>The summary; \<open>productivity_score\<close> is a number, or \<open>None\<close> for NaN.\<close>

record SessionSummary =
  total_duration :: int
  active_duration :: int
  idle_duration :: int
  activity_breakdown :: "(string \<times> bucket_value) list"
  category_breakdown :: "(string \<times> bucket_value) list"
  top_applications :: "TopApplication list"
  productivity_score :: "rat option"

text \<open>The accumulators of the loop over the activities in \<open>getSessionSummary\<close>.\<close>

record SummaryAcc =
  acc_activeDuration :: int
  acc_idleDuration :: int
  acc_activityBreakdown :: "(string \<times> bucket_value) list"
  acc_categoryBreakdown :: "(string \<times> bucket_value) list"
  acc_applicationDurations :: "(string \<times> int) list"

definition duration_or_0 :: "ParsedActivity \<Rightarrow> int" where
  "duration_or_0 a = (case act_duration a of None \<Rightarrow> 0 | Some d \<Rightarrow> d)"

definition summary_step :: "js_host \<Rightarrow> SummaryAcc \<Rightarrow> ParsedActivity \<Rightarrow> SummaryAcc" where
  "summary_step h acc a =
     (let duration = duration_or_0 a;
          acc1 = acc\<lparr>acc_activityBreakdown :=
                       add_to_key h (act_type a) duration (acc_activityBreakdown acc)\<rparr>;
          acc2 = acc1\<lparr>acc_categoryBreakdown :=
                        add_to_key h (act_category a) duration (acc_categoryBreakdown acc1)\<rparr>;
          acc3 = acc2\<lparr>acc_applicationDurations :=
                        add_to_entry (act_application a) duration (acc_applicationDurations acc2)\<rparr>
      in if act_type a = IDLE then acc3\<lparr>acc_idleDuration := acc_idleDuration acc3 + duration\<rparr>
         else acc3\<lparr>acc_activeDuration := acc_activeDuration acc3 + duration\<rparr>)"

definition summary_loop :: "js_host \<Rightarrow> ParsedActivity list \<Rightarrow> SummaryAcc" where
  "summary_loop h as =
     foldl (summary_step h)
       \<lparr>acc_activeDuration = 0, acc_idleDuration = 0, acc_activityBreakdown = [],
        acc_categoryBreakdown = [], acc_applicationDurations = []\<rparr> as"

text \<open>\<open>categoryCounts\<close> is a Map from category to count, in insertion order.\<close>

fun count_key :: "string \<Rightarrow> (string \<times> nat) list \<Rightarrow> (string \<times> nat) list" where
  "count_key k [] = [(k, 0 + 1)]"
| "count_key k ((k', n) # kns) =
     (if k' = k then (k', n + 1) # kns else (k', n) # count_key k kns)"

fun dominant :: "(string \<times> nat) list \<Rightarrow> nat \<Rightarrow> string \<Rightarrow> string" where
  "dominant [] maxCount dominantCategory = dominantCategory"
| "dominant ((category, count) # rest) maxCount dominantCategory =
     (if count > maxCount then dominant rest count category
      else dominant rest maxCount dominantCategory)"

definition getApplicationCategory :: "ParsedActivity list \<Rightarrow> string \<Rightarrow> string" where
  "getApplicationCategory as appName =
     (let appActivities = filter (\<lambda>a. act_application a = appName) as
      in if length appActivities = 0 then NEUTRAL
         else let categoryCounts = foldl (\<lambda>m a. count_key (act_category a) m) [] appActivities
              in dominant categoryCounts 0 NEUTRAL)"

text \<open>
  \<open>Object.entries(obj)\<close>: the own properties whose key is an array index (a canonical
  numeral below \<open>2^32 - 1\<close>) in ascending order of the index, then the others in insertion
  order.
\<close>

definition index_of_key :: "string \<Rightarrow> nat option" where
  "index_of_key k =
     (case array_index k of
        None \<Rightarrow> None
      | Some i \<Rightarrow> if i < 4294967295 then Some i else None)"

definition own_entries :: "(string \<times> 'v) list \<Rightarrow> (string \<times> 'v) list" where
  "own_entries obj =
     sort_key (\<lambda>kv. case index_of_key (fst kv) of None \<Rightarrow> 0 | Some i \<Rightarrow> i)
       (filter (\<lambda>kv. index_of_key (fst kv) \<noteq> None) obj)
     @ filter (\<lambda>kv. index_of_key (fst kv) = None) obj"

text \<open>The object literal \<open>weights\<close> of \<open>calculateProductivityScore\<close>.\<close>

definition productivity_weights :: "(string \<times> rat) list" where
  "productivity_weights =
     [(PRODUCTIVE, 1), (LEARNING, 9/10), (COMMUNICATION, 7/10), (NEUTRAL, 5/10),
      (BREAK, 4/10), (ENTERTAINMENT, 2/10), (DISTRACTING, 0)]"

text \<open>
  The number that \<open>weights[category] || 0.5\<close> is in the product \<open>weight * duration\<close>,
  \<open>None\<close> for NaN: the weight of the table unless it is 0; for the name of a member of
  \<open>Object.prototype\<close> the inherited built-in, which is truthy and is converted through
  its string; and 0.5 for any other key.
\<close>

definition category_weight :: "js_host \<Rightarrow> string \<Rightarrow> rat option" where
  "category_weight h category =
     (case map_of productivity_weights category of
        Some w \<Rightarrow> Some (if w \<noteq> 0 then w else 5/10)
      | None \<Rightarrow>
          if plain_key category then Some (5/10)
          else StringToNumber h (NativeToString h (''Object.prototype.'' @ category)))"

text \<open>The number and the string of a bucket value.\<close>

definition number_of :: "js_host \<Rightarrow> bucket_value \<Rightarrow> rat option" where
  "number_of h v = (case v of Number n \<Rightarrow> Some (of_int n) | Text s \<Rightarrow> StringToNumber h s)"

definition text_of :: "js_host \<Rightarrow> bucket_value \<Rightarrow> string" where
  "text_of h v = (case v of Number n \<Rightarrow> NumberToString h (of_int n) | Text s \<Rightarrow> s)"

text \<open>
  The loop over the entries of \<open>categoryBreakdown\<close> on the pair
  \<open>(weightedSum, totalWeight)\<close>: \<open>weightedSum += weight * duration\<close> adds numbers, NaN
  being contagious; \<open>totalWeight += duration\<close> adds numbers and concatenates as soon as
  one side is a string.
\<close>

fun weighted_categories ::
  "js_host \<Rightarrow> (string \<times> bucket_value) list \<Rightarrow> rat option \<times> bucket_value
     \<Rightarrow> rat option \<times> bucket_value" where
  "weighted_categories h [] st = st"
| "weighted_categories h ((category, duration) # rest) st =
     weighted_categories h rest
       ((case fst st of
           None \<Rightarrow> None
         | Some weightedSum \<Rightarrow>
             (case category_weight h category of
                None \<Rightarrow> None
              | Some weight \<Rightarrow>
                  (case number_of h duration of
                     None \<Rightarrow> None
                   | Some d \<Rightarrow> Some (weightedSum + weight * d)))),
        (case snd st of
           Number totalWeight \<Rightarrow>
             (case duration of
                Number d \<Rightarrow> Number (totalWeight + d)
              | Text s \<Rightarrow> Text (text_of h (snd st) @ s))
         | Text t \<Rightarrow> Text (t @ text_of h duration)))"

text \<open>
  A number of the score computation after the division: the quotient by zero is an
  infinity, or NaN for \<open>0 / 0\<close>. The divisor is zero only when \<open>totalWeight\<close> is a string
  that reads as zero (a number \<open>totalWeight\<close> equal to 0 has returned before); the zero is
  taken as positive.
\<close>

datatype js_quotient = Finite rat | PlusInfinity | MinusInfinity | NotANumber

definition js_divide :: "rat option \<Rightarrow> rat option \<Rightarrow> js_quotient" where
  "js_divide x y =
     (case x of
        None \<Rightarrow> NotANumber
      | Some a \<Rightarrow>
          (case y of
             None \<Rightarrow> NotANumber
           | Some b \<Rightarrow>
               if b \<noteq> 0 then Finite (a / b)
               else if a > 0 then PlusInfinity
               else if a < 0 then MinusInfinity
               else NotANumber))"

text \<open>\<open>q * c\<close> for a positive number \<open>c\<close>.\<close>

fun scale :: "js_quotient \<Rightarrow> rat \<Rightarrow> js_quotient" where
  "scale (Finite x) c = Finite (x * c)"
| "scale q c = q"

text \<open>\<open>Math.min(100, Math.max(0, q))\<close>, \<open>None\<close> for NaN.\<close>

fun clamp_0_100 :: "js_quotient \<Rightarrow> rat option" where
  "clamp_0_100 (Finite x) = Some (min 100 (max 0 x))"
| "clamp_0_100 PlusInfinity = Some 100"
| "clamp_0_100 MinusInfinity = Some 0"
| "clamp_0_100 NotANumber = None"

definition calculateProductivityScore ::
  "js_host \<Rightarrow> (string \<times> bucket_value) list \<Rightarrow> int \<Rightarrow> int \<Rightarrow> rat option" where
  "calculateProductivityScore h categoryBreakdown activeDuration totalDuration =
     (if totalDuration = 0 then Some 0
      else let st = weighted_categories h (own_entries categoryBreakdown) (Some 0, Number 0);
               weightedSum = fst st;
               totalWeight = snd st
           in if totalWeight = Number 0 then Some 0
              else let score = scale (js_divide weightedSum (number_of h totalWeight)) 100;
                       activeRatio = (of_int activeDuration :: rat) / of_int totalDuration;
                       adjusted = (if activeRatio > 8/10 then scale score (11/10)
                                   else if activeRatio < 5/10 then scale score (9/10)
                                   else score)
                   in clamp_0_100 adjusted)"

definition topApplications :: "ParsedActivity list \<Rightarrow> (string \<times> int) list \<Rightarrow> TopApplication list" where
  "topApplications as applicationDurations =
     map (\<lambda>(name, duration).
            \<lparr>app_name = name, app_duration = duration,
             activity_count = length (filter (\<lambda>a. act_application a = name) as),
             app_category = getApplicationCategory as name\<rparr>)
       (take 5 (sort_key (\<lambda>e. - snd e) applicationDurations))"

definition getSessionSummary :: "js_host \<Rightarrow> SessionManager \<Rightarrow> string \<Rightarrow> SessionSummary option" where
  "getSessionSummary h sm sessionId =
     (case sessions sm sessionId of
        None \<Rightarrow> None
      | Some session \<Rightarrow>
          if length (activities session) = 0 then None
          else
            let totalDuration = (case end_time session of
                                   None \<Rightarrow> 0 | Some e \<Rightarrow> e - start_time session);
                acc = summary_loop h (activities session)
            in Some \<lparr>total_duration = totalDuration,
                     active_duration = acc_activeDuration acc,
                     idle_duration = acc_idleDuration acc,
                     activity_breakdown = acc_activityBreakdown acc,
                     category_breakdown = acc_categoryBreakdown acc,
                     top_applications =
                       topApplications (activities session) (acc_applicationDurations acc),
                     productivity_score =
                       calculateProductivityScore h (acc_categoryBreakdown acc)
                         (acc_activeDuration acc) totalDuration\<rparr>)"

section \<open>RuleEngine\<close>

record RuleCondition =
  cond_field :: string
  cond_operator :: string
  cond_value :: jsval

text \<open>A rule action \<open>{type, params}\<close> as a tagged variant: \<open>set_type v\<close> is
  \<open>{type: 'set_type', params: {value: v}}\<close>, \<open>extract_content f p t\<close> has the parameters
  \<open>field\<close>, \<open>pattern\<close> and \<open>target\<close>, and \<open>unknown_action\<close> is any other \<open>type\<close>. The
  parameters are strings.\<close>

datatype RuleAction =
    set_type string
  | set_category string
  | add_tag string
  | extract_content string string string
  | calculate_duration
  | unknown_action string

record ParsingRule =
  rule_id :: string
  rule_name :: string
  rule_description :: string
  priority :: int
  conditions :: "RuleCondition list"
  actions :: "RuleAction list"
  enabled :: bool

record RuleResult =
  rr_type :: "string option"
  rr_category :: "string option"
  tags :: "string list"
  content :: "(string \<times> jsval) list"
  applied_rules :: "string list"

record RuleEngine =
  rules :: "ParsingRule list"
  ruleHits :: "string \<rightharpoonup> nat"

text \<open>\<open>[...rules].sort((a, b) => b.priority - a.priority)\<close>: a stable sort, highest
  priority first.\<close>

definition sortRulesByPriority :: "ParsingRule list \<Rightarrow> ParsingRule list" where
  "sortRulesByPriority rs = sort_key (\<lambda>r. - priority r) rs"

definition RuleEngine_new :: "ParsingRule list \<Rightarrow> RuleEngine" where
  "RuleEngine_new rs = \<lparr>rules = sortRulesByPriority rs, ruleHits = Map.empty\<rparr>"

definition updateRules :: "RuleEngine \<Rightarrow> ParsingRule list \<Rightarrow> RuleEngine" where
  "updateRules eng rs = eng\<lparr>rules := sortRulesByPriority rs\<rparr>"

text \<open>The raw record as the object \<open>getFieldValue\<close> walks through.\<close>

definition context_object :: "ApplicationContext \<Rightarrow> jsval" where
  "context_object c =
     JObj ([(''application'', JStr (ctx_application c)),
            (''window_title'', JStr (ctx_window_title c))]
           @ (case ctx_process_name c of None \<Rightarrow> [] | Some n \<Rightarrow> [(''process_name'', JStr n)])
           @ (case ctx_url c of None \<Rightarrow> [] | Some u \<Rightarrow> [(''url'', JStr u)]))"

definition activity_object :: "RawActivity \<Rightarrow> jsval" where
  "activity_object a =
     JObj ([(''id'', JStr (raw_id a)),
            (''timestamp'', JNum (of_int (raw_timestamp a))),
            (''device_id'', JStr (raw_device_id a)),
            (''session_id'', JStr (raw_session_id a)),
            (''type'', JStr (raw_type a)),
            (''data'', raw_data a)]
           @ (case raw_processed_text a of None \<Rightarrow> [] | Some t \<Rightarrow> [(''processed_text'', JStr t)])
           @ (case raw_context a of None \<Rightarrow> [] | Some c \<Rightarrow> [(''context'', context_object c)]))"

text \<open>\<open>s.split('.')\<close>\<close>

fun split_dots :: "string \<Rightarrow> string \<Rightarrow> string list" where
  "split_dots cur [] = [cur]"
| "split_dots cur (c # cs) =
     (if c = CHR ''.'' then cur # split_dots [] cs else split_dots (cur @ [c]) cs)"

text \<open>\<open>value?.[part]\<close>\<close>

definition optional_get :: "js_host \<Rightarrow> jsval \<Rightarrow> string \<Rightarrow> jsval" where
  "optional_get h v k = (if v = JUndefined \<or> v = JNull then JUndefined else js_get h v k)"

fun walk_parts :: "js_host \<Rightarrow> jsval \<Rightarrow> string list \<Rightarrow> jsval" where
  "walk_parts h v [] = v"
| "walk_parts h v (part # parts) =
     (let v' = optional_get h v part
      in if v' = JUndefined then v' else walk_parts h v' parts)"

definition getFieldValue :: "js_host \<Rightarrow> RawActivity \<Rightarrow> string \<Rightarrow> jsval" where
  "getFieldValue h a field = walk_parts h (activity_object a) (split_dots [] field)"

definition evaluateCondition :: "js_host \<Rightarrow> RuleCondition \<Rightarrow> RawActivity \<Rightarrow> js_error + bool" where
  "evaluateCondition h c a =
     (let v = getFieldValue h a (cond_field c)
      in if cond_operator c = ''equals'' then Inr (strict_equal v (cond_value c))
         else if cond_operator c = ''contains'' then
           (case v of
              JStr s \<Rightarrow>
                (case cond_value c of
                   JStr t \<Rightarrow> Inr (str_includes (toLowerCase s) (toLowerCase t))
                 | _ \<Rightarrow> Inl TypeError)
            | _ \<Rightarrow> Inr False)
         else if cond_operator c = ''matches'' then
           (case v of
              JStr s \<Rightarrow>
                (case RegExp_of h (cond_value c) of
                   Inl e \<Rightarrow> Inl e
                 | Inr re \<Rightarrow> Inr (re s \<noteq> None))
            | _ \<Rightarrow> Inr False)
         else if cond_operator c = ''greater_than'' then
           (case v of
              JNum n \<Rightarrow>
                (case ToNumber h (cond_value c) of
                   Inl e \<Rightarrow> Inl e
                 | Inr None \<Rightarrow> Inr False
                 | Inr (Some m) \<Rightarrow> Inr (n > m))
            | JNaN \<Rightarrow>
                (case ToNumber h (cond_value c) of Inl e \<Rightarrow> Inl e | Inr m \<Rightarrow> Inr False)
            | _ \<Rightarrow> Inr False)
         else if cond_operator c = ''less_than'' then
           (case v of
              JNum n \<Rightarrow>
                (case ToNumber h (cond_value c) of
                   Inl e \<Rightarrow> Inl e
                 | Inr None \<Rightarrow> Inr False
                 | Inr (Some m) \<Rightarrow> Inr (n < m))
            | JNaN \<Rightarrow>
                (case ToNumber h (cond_value c) of Inl e \<Rightarrow> Inl e | Inr m \<Rightarrow> Inr False)
            | _ \<Rightarrow> Inr False)
         else Inr False)"

text \<open>\<open>conditions.every(...)\<close>: left to right, stopping at the first false condition; an
  exception of a condition leaves \<open>every\<close>.\<close>

fun evaluateConditions :: "js_host \<Rightarrow> RuleCondition list \<Rightarrow> RawActivity \<Rightarrow> js_error + bool" where
  "evaluateConditions h [] a = Inr True"
| "evaluateConditions h (c # cs) a =
     (case evaluateCondition h c a of
        Inl e \<Rightarrow> Inl e
      | Inr b \<Rightarrow> if b then evaluateConditions h cs a else Inr False)"

text \<open>\<open>result.content\<close> is a plain object and the extracted text a string.\<close>

definition extractContent ::
  "js_host \<Rightarrow> string \<Rightarrow> string \<Rightarrow> string \<Rightarrow> RawActivity \<Rightarrow> RuleResult \<Rightarrow> js_error + RuleResult" where
  "extractContent h field pattern target a result =
     (case getFieldValue h a field of
        JStr s \<Rightarrow>
          if pattern \<noteq> [] then
            (case RegExp_new h pattern of
               None \<Rightarrow> Inl SyntaxError
             | Some re \<Rightarrow>
                 (case re s of
                    None \<Rightarrow> Inr result
                  | Some (m0, m1) \<Rightarrow>
                      Inr (result\<lparr>content :=
                             assign_key target
                               (JStr (case m1 of None \<Rightarrow> m0 | Some g \<Rightarrow> if g \<noteq> [] then g else m0))
                               (content result)\<rparr>)))
          else Inr result
      | _ \<Rightarrow> Inr result)"

fun applyAction :: "js_host \<Rightarrow> RuleAction \<Rightarrow> RawActivity \<Rightarrow> RuleResult \<Rightarrow> js_error + RuleResult" where
  "applyAction h (set_type v) a result = Inr (result\<lparr>rr_type := Some v\<rparr>)"
| "applyAction h (set_category v) a result = Inr (result\<lparr>rr_category := Some v\<rparr>)"
| "applyAction h (add_tag v) a result = Inr (result\<lparr>tags := tags result @ [v]\<rparr>)"
| "applyAction h (extract_content field pattern target) a result =
     extractContent h field pattern target a result"
| "applyAction h calculate_duration a result = Inr result"
| "applyAction h (unknown_action t) a result = Inr result"

text \<open>\<open>for (const action of rule.actions) this.applyAction(action, activity, result)\<close>\<close>

fun applyActions :: "js_host \<Rightarrow> RuleAction list \<Rightarrow> RawActivity \<Rightarrow> RuleResult \<Rightarrow> js_error + RuleResult" where
  "applyActions h [] a result = Inr result"
| "applyActions h (action # rest) a result =
     (case applyAction h action a result of
        Inl e \<Rightarrow> Inl e
      | Inr result' \<Rightarrow> applyActions h rest a result')"

fun is_set_action :: "RuleAction \<Rightarrow> bool" where
  "is_set_action (set_type v) = True"
| "is_set_action (set_category v) = True"
| "is_set_action action = False"

definition isExclusiveRule :: "ParsingRule \<Rightarrow> bool" where
  "isExclusiveRule rule = list_ex is_set_action (actions rule)"

definition recordHit :: "(string \<rightharpoonup> nat) \<Rightarrow> string \<Rightarrow> (string \<rightharpoonup> nat)" where
  "recordHit hits ruleId =
     (let n = (case hits ruleId of None \<Rightarrow> 0 | Some n \<Rightarrow> n) in hits(ruleId \<mapsto> n + 1))"

text \<open>
  The loop of \<open>apply\<close> over the rules not yet visited. It returns the result, or the
  exception that left the loop, together with the hit counters as they are then (the
  counters are a field of the engine and keep the hits recorded before an exception).
\<close>

fun apply_loop ::
  "js_host \<Rightarrow> ParsingRule list \<Rightarrow> RawActivity \<Rightarrow> RuleResult \<Rightarrow> (string \<rightharpoonup> nat)
     \<Rightarrow> (js_error + RuleResult) \<times> (string \<rightharpoonup> nat)" where
  "apply_loop h [] a result hits = (Inr result, hits)"
| "apply_loop h (rule # rest) a result hits =
     (if \<not> enabled rule then apply_loop h rest a result hits
      else
        case evaluateConditions h (conditions rule) a of
          Inl e \<Rightarrow> (Inl e, hits)
        | Inr matched \<Rightarrow>
            if matched then
              (case applyActions h (actions rule) a result of
                 Inl e \<Rightarrow> (Inl e, hits)
               | Inr result' \<Rightarrow>
                   let result'' = result'\<lparr>applied_rules := applied_rules result' @ [rule_id rule]\<rparr>;
                       hits' = recordHit hits (rule_id rule)
                   in if isExclusiveRule rule then (Inr result'', hits')
                      else apply_loop h rest a result'' hits')
            else apply_loop h rest a result hits)"

definition empty_result :: RuleResult where
  "empty_result =
     \<lparr>rr_type = None, rr_category = None, tags = [], content = [], applied_rules = []\<rparr>"

definition RuleEngine_apply ::
  "js_host \<Rightarrow> RuleEngine \<Rightarrow> RawActivity \<Rightarrow> (js_error + RuleResult) \<times> RuleEngine" where
  "RuleEngine_apply h eng a =
     (let (r, hits') = apply_loop h (rules eng) a empty_result (ruleHits eng)
      in (r, eng\<lparr>ruleHits := hits'\<rparr>))"

text \<open>The default rules. The pattern of the third rule is
  \<^verbatim>\<open>^#{1,6}\s+|^\*\s+|^\d+\.\s+\<close>.\<close>

definition backslash :: char where
  "backslash = CHR 0x5C"

definition getDefaultRules :: "ParsingRule list" where
  "getDefaultRules =
     [\<lparr>rule_id = ''code-detection'', rule_name = ''Code Activity Detection'',
       rule_description = ''Detects coding activities in IDEs'', priority = 100,
       conditions = [\<lparr>cond_field = ''context.application'', cond_operator = ''matches'',
                      cond_value = JStr ''vscode|intellij|sublime|atom|vim|emacs''\<rparr>],
       actions = [set_type ''coding'', set_category ''productive'', add_tag ''development''],
       enabled = True\<rparr>,
      \<lparr>rule_id = ''browser-youtube'', rule_name = ''YouTube Detection'',
       rule_description = ''Detects YouTube usage'', priority = 90,
       conditions = [\<lparr>cond_field = ''context.url'', cond_operator = ''contains'',
                      cond_value = JStr ''youtube.com''\<rparr>],
       actions = [set_type ''browsing'', set_category ''entertainment'', add_tag ''video''],
       enabled = True\<rparr>,
      \<lparr>rule_id = ''documentation-writing'', rule_name = ''Documentation Detection'',
       rule_description = ''Detects documentation writing'', priority = 80,
       conditions = [\<lparr>cond_field = ''processed_text'', cond_operator = ''matches'',
                      cond_value = JStr (''^#{1,6}'' @ [backslash] @ ''s+|^'' @ [backslash] @ ''*''
                                   @ [backslash] @ ''s+|^'' @ [backslash] @ ''d+''
                                   @ [backslash] @ ''.'' @ [backslash] @ ''s+'')\<rparr>],
       actions = [set_type ''documenting'', set_category ''productive''],
       enabled = True\<rparr>,
      \<lparr>rule_id = ''idle-detection'', rule_name = ''Idle Time Detection'',
       rule_description = ''Detects periods of inactivity'', priority = 50,
       conditions = [\<lparr>cond_field = ''data.idle_time'', cond_operator = ''greater_than'',
                      cond_value = JNum 300000\<rparr>],
       actions = [set_type ''idle'', set_category ''break''],
       enabled = True\<rparr>]"

section \<open>ActivityCategorizer\<close>

record CategorizationConfig =
  productive_apps :: "string list"
  distracting_apps :: "string list"
  communication_apps :: "string list"
  learning_apps :: "string list"

record ActivityCategorizer =
  cat_config :: CategorizationConfig
  categoryCache :: "string \<rightharpoonup> string"

definition knownApps :: "(string \<times> string) list" where
  "knownApps =
     [(''vscode'', PRODUCTIVE), (''visual studio'', PRODUCTIVE), (''intellij'', PRODUCTIVE),
      (''sublime'', PRODUCTIVE), (''atom'', PRODUCTIVE), (''vim'', PRODUCTIVE),
      (''emacs'', PRODUCTIVE), (''excel'', PRODUCTIVE), (''word'', PRODUCTIVE),
      (''powerpoint'', PRODUCTIVE), (''notion'', PRODUCTIVE), (''obsidian'', PRODUCTIVE),
      (''slack'', COMMUNICATION), (''teams'', COMMUNICATION), (''discord'', COMMUNICATION),
      (''telegram'', COMMUNICATION), (''whatsapp'', COMMUNICATION), (''skype'', COMMUNICATION),
      (''zoom'', COMMUNICATION), (''outlook'', COMMUNICATION), (''gmail'', COMMUNICATION),
      (''steam'', ENTERTAINMENT), (''epic games'', ENTERTAINMENT), (''vlc'', ENTERTAINMENT),
      (''spotify'', ENTERTAINMENT),
      (''chrome'', NEUTRAL), (''firefox'', NEUTRAL), (''safari'', NEUTRAL), (''edge'', NEUTRAL)]"

text \<open>The cache after \<open>initializeCache\<close> on an empty cache.\<close>

definition initializeCache :: "string \<rightharpoonup> string" where
  "initializeCache = map_of knownApps"

definition ActivityCategorizer_new :: "CategorizationConfig \<Rightarrow> ActivityCategorizer" where
  "ActivityCategorizer_new cfg = \<lparr>cat_config = cfg, categoryCache = initializeCache\<rparr>"

definition categorizeByType :: "string \<Rightarrow> string" where
  "categorizeByType ty =
     (if ty = CODING \<or> ty = DOCUMENTING then PRODUCTIVE
      else if ty = COMMUNICATING then COMMUNICATION
      else if ty = BROWSING then NEUTRAL
      else if ty = IDLE then BREAK
      else NEUTRAL)"

definition categorizeByApplication :: "CategorizationConfig \<Rightarrow> string \<Rightarrow> string option" where
  "categorizeByApplication cfg app =
     (if app = [] then None
      else if list_ex (\<lambda>prodApp. str_includes app (toLowerCase prodApp)) (productive_apps cfg)
        then Some PRODUCTIVE
      else if list_ex (\<lambda>distApp. str_includes app (toLowerCase distApp)) (distracting_apps cfg)
        then Some DISTRACTING
      else if list_ex (\<lambda>commApp. str_includes app (toLowerCase commApp)) (communication_apps cfg)
        then Some COMMUNICATION
      else if list_ex (\<lambda>learnApp. str_includes app (toLowerCase learnApp)) (learning_apps cfg)
        then Some LEARNING
      else None)"

definition socialMedia :: "string list" where
  "socialMedia = [''facebook.com'', ''twitter.com'', ''instagram.com'',
                  ''reddit.com'', ''tiktok.com'', ''linkedin.com'']"

definition entertainment :: "string list" where
  "entertainment = [''youtube.com'', ''netflix.com'', ''twitch.tv'',
                    ''spotify.com'', ''soundcloud.com'']"

definition learning :: "string list" where
  "learning = [''coursera.org'', ''udemy.com'', ''edx.org'', ''khanacademy.org'',
               ''skillshare.com'', ''docs.'', ''developer.'', ''learn.'']"

definition development :: "string list" where
  "development = [''github.com'', ''gitlab.com'', ''bitbucket.org'',
                  ''stackoverflow.com'', ''npmjs.com'', ''pypi.org'']"

text \<open>The \<open>catch\<close> of \<open>categorizeByUrl\<close> turns the TypeError of \<open>new URL\<close> into \<open>null\<close>.\<close>

definition categorizeByUrl :: "js_host \<Rightarrow> string \<Rightarrow> string option" where
  "categorizeByUrl h u =
     (case URL_new h u of
        None \<Rightarrow> None
      | Some urlObj \<Rightarrow>
          let domain = toLowerCase (hostname urlObj)
          in if list_ex (\<lambda>site. str_includes domain site) socialMedia then Some DISTRACTING
             else if list_ex (\<lambda>site. str_includes domain site) entertainment
               then Some ENTERTAINMENT
             else if list_ex (\<lambda>site. str_includes domain site) learning then Some LEARNING
             else if list_ex (\<lambda>site. str_includes domain site) development then Some PRODUCTIVE
             else None)"

text \<open>\<open>activity.context?.application?.toLowerCase() || ''\<close>\<close>

definition app_key :: "RawActivity \<Rightarrow> string" where
  "app_key a = (case raw_context a of None \<Rightarrow> [] | Some c \<Rightarrow> toLowerCase (ctx_application c))"

text \<open>\<open>activity.context?.url\<close>\<close>

definition context_url :: "RawActivity \<Rightarrow> string option" where
  "context_url a = (case raw_context a of None \<Rightarrow> None | Some c \<Rightarrow> ctx_url c)"

text \<open>\<open>categorize\<close> returns the category and the categorizer with its cache as the call
  leaves it.\<close>

definition categorize ::
  "js_host \<Rightarrow> ActivityCategorizer \<Rightarrow> RawActivity \<Rightarrow> string \<Rightarrow> string \<times> ActivityCategorizer" where
  "categorize h cz a ty =
     (let app = app_key a
      in case categoryCache cz app of
           Some cached \<Rightarrow> (cached, cz)
         | None \<Rightarrow>
             let category0 = categorizeByType ty;
                 category1 = (case categorizeByApplication (cat_config cz) app of
                                None \<Rightarrow> category0 | Some appCategory \<Rightarrow> appCategory);
                 category2 = (if truthy_str (context_url a)
                              then (case categorizeByUrl h (the (context_url a)) of
                                      None \<Rightarrow> category1 | Some urlCategory \<Rightarrow> urlCategory)
                              else category1)
             in (category2, cz\<lparr>categoryCache := (categoryCache cz)(app \<mapsto> category2)\<rparr>))"

section \<open>ContentExtractor\<close>

record ContentExtractionConfig =
  enable_keyword_extraction :: bool
  enable_language_detection :: bool
  max_keywords :: nat

text \<open>\<open>Array.from(new Set(xs))\<close>: the first occurrence of every element, in order.\<close>

definition dedupe :: "'a list \<Rightarrow> 'a list" where
  "dedupe xs = rev (remdups (rev xs))"

definition detectLanguage :: "js_host \<Rightarrow> string \<Rightarrow> string" where
  "detectLanguage h text =
     (if regex_test h RE_lang_zh text then ''zh''
      else if regex_test h RE_lang_ja text then ''ja''
      else if regex_test h RE_lang_ko text then ''ko''
      else if regex_test h RE_lang_ru text then ''ru''
      else ''en'')"

definition stopWords :: "string list" where
  "stopWords =
     [''the'', ''is'', ''at'', ''which'', ''on'', ''a'', ''an'', ''and'', ''or'', ''but'',
      ''in'', ''with'', ''to'', ''for'', ''of'', ''as'', ''by'', ''that'', ''this'',
      ''it'', ''from'', ''be'', ''are'', ''been'', ''being'', ''have'', ''has'', ''had'',
      ''do'', ''does'', ''did'', ''will'', ''would'', ''could'', ''should'', ''may'',
      ''might'', ''must'', ''shall'', ''can'', ''need'', ''ought'', ''dare'', ''used'']"

definition programmingPatterns :: "regex list" where
  "programmingPatterns =
     [RE_tech_declaration, RE_tech_import, RE_tech_call, RE_tech_camel_case, RE_tech_constant]"

definition extractTechnicalTerms :: "js_host \<Rightarrow> string \<Rightarrow> string list" where
  "extractTechnicalTerms h text =
     concat (map (\<lambda>pattern. map toLowerCase (regex_match_all h pattern text))
               programmingPatterns)"

definition extractKeywords :: "js_host \<Rightarrow> ContentExtractionConfig \<Rightarrow> string \<Rightarrow> string list" where
  "extractKeywords h cfg text =
     (let words = regex_match_all h RE_words (toLowerCase text);
          wordFreq = foldl (\<lambda>m word. if \<not> List.member stopWords word \<and> length word > 2
                                       then count_key word m else m) [] words;
          sortedWords = map fst (take (max_keywords cfg)
                                   (sort_key (\<lambda>e. - int (snd e)) wordFreq));
          technicalTerms = extractTechnicalTerms h text
      in take (max_keywords cfg) (dedupe (sortedWords @ technicalTerms)))"

definition tracking_parameters :: "string list" where
  "tracking_parameters = [''utm_source'', ''utm_medium'', ''utm_campaign'', ''fbclid'']"

text \<open>The \<open>catch\<close> of \<open>cleanUrl\<close> returns the URL as it is when \<open>new URL\<close> throws.\<close>

definition cleanUrl :: "js_host \<Rightarrow> string \<Rightarrow> string" where
  "cleanUrl h u =
     (case URL_new h u of
        None \<Rightarrow> u
      | Some parsed \<Rightarrow>
          href_with_search parsed
            (foldl (\<lambda>cleanParams (key, v).
                      if List.member tracking_parameters key then cleanParams
                      else set_key key v cleanParams)
               [] (searchParams parsed)))"

definition extractUrls :: "js_host \<Rightarrow> RawActivity \<Rightarrow> string list" where
  "extractUrls h a =
     (let urls = (if truthy_str (context_url a) then [the (context_url a)] else [])
                 @ (if truthy_str (raw_processed_text a)
                    then regex_match_all h RE_url (the (raw_processed_text a)) else [])
      in dedupe (map (cleanUrl h) urls))"

definition is_space :: "char \<Rightarrow> bool" where
  "is_space c = List.member [CHR 0x09, CHR 0x0A, CHR 0x0B, CHR 0x0C, CHR 0x0D, CHR 0x20] c"

definition trim :: "string \<Rightarrow> string" where
  "trim s = rev (dropWhile is_space (rev (dropWhile is_space s)))"

text \<open>\<open>activity.context?.window_title\<close> and \<open>activity.context?.application\<close>\<close>

definition context_window_title :: "RawActivity \<Rightarrow> string option" where
  "context_window_title a =
     (case raw_context a of None \<Rightarrow> None | Some c \<Rightarrow> Some (ctx_window_title c))"

definition context_application :: "RawActivity \<Rightarrow> string option" where
  "context_application a =
     (case raw_context a of None \<Rightarrow> None | Some c \<Rightarrow> Some (ctx_application c))"

definition extractFilePaths :: "js_host \<Rightarrow> RawActivity \<Rightarrow> string list" where
  "extractFilePaths h a =
     (let files = (if truthy_str (context_window_title a)
                   then regex_match_all h RE_path_in_title (the (context_window_title a))
                   else [])
                  @ (if truthy_str (raw_processed_text a)
                     then map trim (regex_match_all h RE_path_in_text (the (raw_processed_text a)))
                     else [])
      in dedupe files)"

text \<open>The spread \<open>[...v]\<close> of a value with a positive \<open>length\<close>: an array gives its
  elements, a string its characters, and an object is not iterable.\<close>

fun spread :: "jsval \<Rightarrow> js_error + jsval list" where
  "spread (JArr xs) = Inr xs"
| "spread (JStr s) = Inr (map (\<lambda>c. JStr [c]) s)"
| "spread v = Inl TypeError"

text \<open>\<open>xs.join('+')\<close>: \<open>undefined\<close> and \<open>null\<close> elements give the empty string, the other
  elements are converted to strings in their order.\<close>

definition join_element :: "js_host \<Rightarrow> jsval \<Rightarrow> js_error + string" where
  "join_element h v = (if v = JUndefined \<or> v = JNull then Inr [] else ToString h v)"

definition join_plus :: "js_host \<Rightarrow> jsval list \<Rightarrow> js_error + string" where
  "join_plus h vs =
     (let rs = map (join_element h) vs
      in case first_error rs of
           Some e \<Rightarrow> Inl e
         | None \<Rightarrow> Inr (join_with ''+'' (map projr rs)))"

definition extractKeyboardShortcuts :: "js_host \<Rightarrow> jsval \<Rightarrow> js_error + jsval list" where
  "extractKeyboardShortcuts h d =
     (let modifiers = js_get h d ''modifiers''
      in if truthy modifiers then
           (case js_gt_num h (js_get h modifiers ''length'') 0 of
              Inl e \<Rightarrow> Inl e
            | Inr positive \<Rightarrow>
                if positive \<and> truthy (js_get h d ''key'') then
                  (case spread modifiers of
                     Inl e \<Rightarrow> Inl e
                   | Inr ms \<Rightarrow>
                       (case join_plus h (ms @ [js_get h d ''key'']) of
                          Inl e \<Rightarrow> Inl e
                        | Inr shortcut \<Rightarrow> Inr [JStr (toLowerCase shortcut)]))
                else Inr [])
         else Inr [])"

definition extractApplicationActions :: "js_host \<Rightarrow> RawActivity \<Rightarrow> js_error + jsval list" where
  "extractApplicationActions h a =
     (let app = (case context_application a of None \<Rightarrow> [] | Some n \<Rightarrow> toLowerCase n)
      in if app = [] then Inr []
         else
           let git = (if (case raw_processed_text a of
                            None \<Rightarrow> False | Some t \<Rightarrow> str_includes t ''git '')
                      then map JStr (regex_match_all h RE_git_command (the (raw_processed_text a)))
                      else [])
           in if (str_includes app ''chrome'' \<or> str_includes app ''firefox'')
                 \<and> truthy_str (context_url a)
              then (case URL_new h (the (context_url a)) of
                      None \<Rightarrow> Inl TypeError
                    | Some u \<Rightarrow>
                        Inr (git @ (if str_includes (pathname u) ''/search''
                                    then [JStr ''web_search''] else [])))
              else Inr git)"

definition extractActions :: "js_host \<Rightarrow> RawActivity \<Rightarrow> js_error + jsval list" where
  "extractActions h a =
     (case (if raw_type a = ''mouse'' \<and> truthy (raw_data a)
            then (case (if truthy (js_get h (raw_data a) ''button'')
                        then (case ToString h (js_get h (raw_data a) ''button'') of
                                Inl e \<Rightarrow> Inl e
                              | Inr button \<Rightarrow> Inr [JStr (button @ ''_click'')])
                        else Inr []) of
                    Inl e \<Rightarrow> Inl e
                  | Inr click \<Rightarrow>
                      Inr ((if truthy (js_get h (raw_data a) ''action'')
                            then [js_get h (raw_data a) ''action''] else [])
                           @ click))
            else Inr []) of
        Inl e \<Rightarrow> Inl e
      | Inr mouse \<Rightarrow>
          (case (if raw_type a = ''keyboard'' \<and> truthy (raw_data a)
                 then extractKeyboardShortcuts h (raw_data a) else Inr []) of
             Inl e \<Rightarrow> Inl e
           | Inr shortcuts \<Rightarrow>
               (case (if truthy_str (context_application a)
                      then extractApplicationActions h a else Inr []) of
                  Inl e \<Rightarrow> Inl e
                | Inr appActions \<Rightarrow> Inr (dedupe (mouse @ shortcuts @ appActions)))))"

text \<open>\<open>ContentExtractor.extract\<close>: the content block as an object, or the exception that
  left the call.\<close>

definition extract_content_block ::
  "js_host \<Rightarrow> ContentExtractionConfig \<Rightarrow> RawActivity \<Rightarrow> js_error + (string \<times> jsval) list" where
  "extract_content_block h cfg a =
     (let textual =
            (if truthy_str (raw_processed_text a)
             then [(''text'', JStr (the (raw_processed_text a)))]
                  @ (if enable_language_detection cfg
                     then [(''language'', JStr (detectLanguage h (the (raw_processed_text a))))]
                     else [])
                  @ (if enable_keyword_extraction cfg
                     then [(''keywords'',
                            JArr (map JStr (extractKeywords h cfg (the (raw_processed_text a)))))]
                     else [])
             else []);
          urls = extractUrls h a;
          files = extractFilePaths h a
      in case extractActions h a of
           Inl e \<Rightarrow> Inl e
         | Inr acts \<Rightarrow>
             Inr (textual @ [(''urls'', JArr (map JStr urls)),
                             (''files'', JArr (map JStr files)),
                             (''actions'', JArr acts)]))"

section \<open>ActivityParser\<close>

record ParserConfig =
  cfg_rules :: "ParsingRule list"
  quality_thresholds :: QualityThresholds
  categorization :: CategorizationConfig
  content_extraction :: ContentExtractionConfig

record ActivityParser =
  ruleEngine :: RuleEngine
  contentExtractor :: ContentExtractionConfig
  categorizer :: ActivityCategorizer
  qualityAnalyzer :: QualityAnalyzer
  sessionManager :: SessionManager
  config :: ParserConfig

definition ActivityParser_new :: "ParserConfig \<Rightarrow> ActivityParser" where
  "ActivityParser_new cfg =
     \<lparr>ruleEngine = RuleEngine_new (cfg_rules cfg),
      contentExtractor = content_extraction cfg,
      categorizer = ActivityCategorizer_new (categorization cfg),
      qualityAnalyzer = QualityAnalyzer_new (quality_thresholds cfg),
      sessionManager = SessionManager_new,
      config = cfg\<rparr>"

definition codeIndicators :: "regex list" where
  "codeIndicators =
     [RE_code_function, RE_code_class, RE_code_import, RE_code_const, RE_code_let,
      RE_code_if, RE_code_for, RE_code_annotation, RE_code_call, RE_code_punctuation]"

definition looksLikeCode :: "js_host \<Rightarrow> string \<Rightarrow> bool" where
  "looksLikeCode h text = list_ex (\<lambda>pattern. regex_test h pattern text) codeIndicators"

definition docIndicators :: "regex list" where
  "docIndicators =
     [RE_doc_header, RE_doc_bullet, RE_doc_numbered, RE_doc_link, RE_doc_code_block,
      RE_doc_mention]"

definition looksLikeDocumentation :: "js_host \<Rightarrow> string \<Rightarrow> bool" where
  "looksLikeDocumentation h text = list_ex (\<lambda>pattern. regex_test h pattern text) docIndicators"

definition isBrowser :: "string option \<Rightarrow> bool" where
  "isBrowser app =
     (if \<not> truthy_str app then False
      else list_ex (\<lambda>browser. str_includes (toLowerCase (the app)) browser)
             [''chrome'', ''firefox'', ''safari'', ''edge'', ''opera'', ''brave''])"

definition isCommunicationApp :: "string option \<Rightarrow> bool" where
  "isCommunicationApp app =
     (if \<not> truthy_str app then False
      else list_ex (\<lambda>commApp. str_includes (toLowerCase (the app)) commApp)
             [''slack'', ''teams'', ''discord'', ''telegram'', ''whatsapp'', ''skype'', ''zoom''])"

text \<open>In the \<open>mouse\<close> case \<open>mouseData.action\<close> reads a property of \<open>raw.data\<close>, which
  throws a TypeError when the payload is \<open>null\<close> or \<open>undefined\<close>.\<close>

definition determineActivityType :: "js_host \<Rightarrow> RawActivity \<Rightarrow> js_error + string" where
  "determineActivityType h raw =
     (if raw_type raw = ''keyboard'' then
        (case raw_processed_text raw of
           None \<Rightarrow> Inr TYPING
         | Some t \<Rightarrow>
             if t \<noteq> [] \<and> length t > 10 then
               (if looksLikeCode h t then Inr CODING
                else if looksLikeDocumentation h t then Inr DOCUMENTING
                else Inr TYPING)
             else Inr TYPING)
      else if raw_type raw = ''mouse'' then
        (if raw_data raw = JUndefined \<or> raw_data raw = JNull then Inl TypeError
         else if strict_equal (js_get h (raw_data raw) ''action'') (JStr ''click'')
           then Inr CLICKING
         else if strict_equal (js_get h (raw_data raw) ''action'') (JStr ''scroll'')
           then Inr SCROLLING
         else Inr READING)
      else if raw_type raw = ''window'' \<or> raw_type raw = ''application'' then
        (if isBrowser (context_application raw) then Inr BROWSING
         else if isCommunicationApp (context_application raw) then Inr COMMUNICATING
         else Inr READING)
      else Inr IDLE)"

text \<open>\<open>x || y\<close> for an optional string \<open>x\<close>.\<close>

definition or_else :: "string option \<Rightarrow> string \<Rightarrow> string" where
  "or_else x y = (if truthy_str x then the x else y)"

text \<open>\<open>{...content, ...ruleResults.content}\<close>\<close>

definition object_spread :: "(string \<times> 'v) list \<Rightarrow> (string \<times> 'v) list \<Rightarrow> (string \<times> 'v) list" where
  "object_spread base over = foldl (\<lambda>obj (k, v). set_key k v obj) base over"

text \<open>Step 6 of \<open>parseActivity\<close>: the object literal \<open>parsed\<close>.\<close>

definition build_parsed ::
  "RawActivity \<Rightarrow> rat \<Rightarrow> string \<Rightarrow> (string \<times> jsval) list \<Rightarrow> string \<Rightarrow> RuleResult \<Rightarrow> ParsedActivity" where
  "build_parsed raw qualityScore activityType extracted category ruleResults =
     \<lparr>act_id = raw_id raw,
      act_timestamp = raw_timestamp raw,
      act_device_id = raw_device_id raw,
      act_session_id = raw_session_id raw,
      act_type = or_else (rr_type ruleResults) activityType,
      act_duration = None,
      act_category = or_else (rr_category ruleResults) category,
      act_application = or_else (context_application raw) ''Unknown'',
      act_window_title = or_else (context_window_title raw) [],
      act_content = object_spread extracted (content ruleResults),
      act_metadata = \<lparr>confidence = qualityScore, parser_version = ''0.1.0'',
                       rules_applied = applied_rules ruleResults,
                       meta_tags = tags ruleResults\<rparr>,
      act_quality_score = qualityScore\<rparr>"

text \<open>Steps 7 and 8: \<open>calculateDuration\<close> on the session manager as it is, then
  \<open>addActivity\<close>.\<close>

definition attach_duration :: "SessionManager \<Rightarrow> ParsedActivity \<Rightarrow> ParsedActivity" where
  "attach_duration sm parsed =
     (case calculateDuration sm parsed of
        None \<Rightarrow> parsed
      | Some duration \<Rightarrow> if duration \<noteq> 0 then parsed\<lparr>act_duration := Some duration\<rparr> else parsed)"

text \<open>
  \<open>parseActivity\<close> at time \<open>now\<close>: the parsed activity or \<open>null\<close>, and the parser with the
  state of its components as the call leaves them. The \<open>catch\<close> around the body turns
  every exception into \<open>null\<close>; what a component changed before the exception stays.
\<close>

definition parseActivity ::
  "js_host \<Rightarrow> int \<Rightarrow> ActivityParser \<Rightarrow> RawActivity \<Rightarrow> ParsedActivity option \<times> ActivityParser" where
  "parseActivity h now p raw =
     (let (analysed, qa) = analyze h (qualityAnalyzer p) now raw;
          p1 = p\<lparr>qualityAnalyzer := qa\<rparr>
      in case analysed of
           Inl e \<Rightarrow> (None, p1)
         | Inr qualityScore \<Rightarrow>
             if qualityScore < min_confidence (quality_thresholds (config p)) then (None, p1)
             else
               case determineActivityType h raw of
                 Inl e \<Rightarrow> (None, p1)
               | Inr activityType \<Rightarrow>
                   (case extract_content_block h (contentExtractor p) raw of
                      Inl e \<Rightarrow> (None, p1)
                    | Inr extracted \<Rightarrow>
                        let (category, cz) = categorize h (categorizer p1) raw activityType;
                            p2 = p1\<lparr>categorizer := cz\<rparr>;
                            (applied, eng) = RuleEngine_apply h (ruleEngine p2) raw;
                            p3 = p2\<lparr>ruleEngine := eng\<rparr>
                        in case applied of
                             Inl e \<Rightarrow> (None, p3)
                           | Inr ruleResults \<Rightarrow>
                               let parsed = attach_duration (sessionManager p3)
                                              (build_parsed raw qualityScore activityType
                                                 extracted category ruleResults)
                               in (Some parsed,
                                   p3\<lparr>sessionManager :=
                                        addActivity (sessionManager p3) parsed\<rparr>)))"

text \<open>Records fed to one parser by successive calls of \<open>parseActivity\<close>, each with the
  time of its call.\<close>

fun feed :: "js_host \<Rightarrow> ActivityParser \<Rightarrow> (int \<times> RawActivity) list \<Rightarrow> ActivityParser" where
  "feed h p [] = p"
| "feed h p ((now, raw) # rest) = feed h (snd (parseActivity h now p raw)) rest"

text \<open>The ids in the duration buffer of a session.\<close>

definition buffered_ids :: "SessionManager \<Rightarrow> string \<Rightarrow> string list" where
  "buffered_ids sm sessionId =
     map act_id (case activityBuffer sm sessionId of None \<Rightarrow> [] | Some b \<Rightarrow> b)"

text \<open>Every record of the feed has, when its call starts, an id that is not in the duration
  buffer of its session.\<close>

fun fresh_ids :: "js_host \<Rightarrow> ActivityParser \<Rightarrow> (int \<times> RawActivity) list \<Rightarrow> bool" where
  "fresh_ids h p [] = True"
| "fresh_ids h p ((now, raw) # rest) =
     (\<not> List.member (buffered_ids (sessionManager p) (raw_session_id raw)) (raw_id raw)
      \<and> fresh_ids h (snd (parseActivity h now p raw)) rest)"

section \<open>A host for concrete evaluations\<close>

text \<open>
  The theorems below hold for every host. Where a statement is evaluated at a concrete
  input, this host stands in for the platform: the \<open>RegExp\<close> constructor rejects the
  pattern \<^verbatim>\<open>(\<close> (an unterminated group, a SyntaxError in JavaScript) and takes
  any other string as a plain substring to find; the literals match nothing; a URL is
  \<open>http://\<close> or \<open>https://\<close>, a host name and a path; a string of decimal digits is a
  number, and a whole number is printed in decimal digits (no other number is printed).
  An array, a string, a number or a boolean inherits the members of \<open>Object.prototype\<close>
  (the host knows no other prototype), a built-in has no property of its own, and the
  built-ins are printed as V8 prints them.
\<close>

fun string_of_nat :: "nat \<Rightarrow> string" where
  "string_of_nat n =
     (if n < 10 then [''0123456789'' ! n]
      else string_of_nat (n div 10) @ [''0123456789'' ! (n mod 10)])"

definition plain_number_string :: "rat \<Rightarrow> string" where
  "plain_number_string x =
     (let (n, d) = quotient_of x
      in if d \<noteq> 1 then ''NaN''
         else if n < 0 then ''-'' @ string_of_nat (nat (- n))
         else string_of_nat (nat n))"

definition plain_inherited :: "js_kind \<Rightarrow> string \<Rightarrow> jsval" where
  "plain_inherited kind k =
     (if plain_key k then JUndefined else JNative (''Object.prototype.'' @ k))"

definition plain_native_string :: "string \<Rightarrow> string" where
  "plain_native_string n =
     (if n = ''Object.prototype.__proto__'' then ''[object Object]''
      else if n = ''Object.prototype.constructor'' then ''function Object() { [native code] }''
      else ''function '' @ drop 17 n @ ''() { [native code] }'')"

definition plain_regexp :: "string \<Rightarrow> (string \<Rightarrow> (string \<times> string option) option) option" where
  "plain_regexp p =
     (if p = ''('' then None
      else Some (\<lambda>s. if str_includes s p then Some (p, None) else None))"

definition plain_url :: "string \<Rightarrow> URL option" where
  "plain_url s =
     (let rest = (if take 8 s = ''https://'' then Some (drop 8 s)
                  else if take 7 s = ''http://'' then Some (drop 7 s) else None)
      in case rest of
           None \<Rightarrow> None
         | Some r \<Rightarrow>
             if takeWhile (\<lambda>c. c \<noteq> CHR ''/'') r = [] then None
             else Some \<lparr>hostname = toLowerCase (takeWhile (\<lambda>c. c \<noteq> CHR ''/'') r),
                        pathname = dropWhile (\<lambda>c. c \<noteq> CHR ''/'') r,
                        searchParams = [],
                        href_with_search = (\<lambda>ps. s)\<rparr>)"

definition plain_number :: "string \<Rightarrow> rat option" where
  "plain_number s = (if s = [] then Some 0 else map_option of_nat (digits_val 0 s))"

definition plain_host :: js_host where
  "plain_host =
     \<lparr>RegExp_new = plain_regexp,
      regex_test = (\<lambda>l s. False),
      regex_match_all = (\<lambda>l s. []),
      regex_split = (\<lambda>l s. [s]),
      URL_new = plain_url,
      StringToNumber = plain_number,
      NumberToString = plain_number_string,
      inherited = plain_inherited,
      native_get = (\<lambda>n k. JUndefined),
      NativeToString = plain_native_string\<rparr>"

text \<open>The configuration the repository ships (\<open>defaultParserConfig\<close>).\<close>

definition defaultParserConfig :: ParserConfig where
  "defaultParserConfig =
     \<lparr>cfg_rules = getDefaultRules,
      quality_thresholds =
        \<lparr>min_confidence = 5/10, min_text_length = 3, max_idle_duration = 300000\<rparr>,
      categorization =
        \<lparr>productive_apps =
           [''vscode'', ''visual studio'', ''intellij'', ''sublime'', ''atom'', ''vim'', ''emacs'',
            ''excel'', ''word'', ''powerpoint'', ''notion'', ''obsidian'', ''figma'', ''sketch'',
            ''photoshop'', ''illustrator'', ''terminal'', ''iterm'', ''powershell''],
         distracting_apps =
           [''facebook'', ''twitter'', ''instagram'', ''tiktok'', ''reddit'',
            ''youtube'', ''netflix'', ''twitch'', ''steam'', ''epic games''],
         communication_apps =
           [''slack'', ''teams'', ''discord'', ''telegram'', ''whatsapp'', ''skype'',
            ''zoom'', ''meet'', ''outlook'', ''gmail'', ''mail'', ''messages''],
         learning_apps =
           [''coursera'', ''udemy'', ''khan academy'', ''duolingo'', ''anki'',
            ''kindle'', ''books'', ''reader'', ''calibre'']\<rparr>,
      content_extraction =
        \<lparr>enable_keyword_extraction = True, enable_language_detection = True,
         max_keywords = 10\<rparr>\<rparr>"

section \<open>Notions used by the properties\<close>

text \<open>The hit counter of a rule: \<open>ruleHits.get(ruleId) || 0\<close>.\<close>

definition hit_count :: "(string \<rightharpoonup> nat) \<Rightarrow> string \<Rightarrow> nat" where
  "hit_count hits ruleId = (case hits ruleId of None \<Rightarrow> 0 | Some n \<Rightarrow> n)"

text \<open>The value of a bucket of a breakdown (0 when the key is absent), the sum of the
  values of a breakdown (\<open>None\<close> when a value is not a number), and the summed durations
  (0 when absent) of the activities that satisfy a predicate.\<close>

definition bucket :: "(string \<times> bucket_value) list \<Rightarrow> string \<Rightarrow> bucket_value" where
  "bucket kvs k = (case map_of kvs k of None \<Rightarrow> Number 0 | Some v \<Rightarrow> v)"

fun values_sum :: "(string \<times> bucket_value) list \<Rightarrow> int option" where
  "values_sum [] = Some 0"
| "values_sum (kv # kvs) =
     (case snd kv of
        Number n \<Rightarrow> (case values_sum kvs of None \<Rightarrow> None | Some t \<Rightarrow> Some (n + t))
      | Text s \<Rightarrow> None)"

definition durations_where :: "(ParsedActivity \<Rightarrow> bool) \<Rightarrow> ParsedActivity list \<Rightarrow> int" where
  "durations_where P as = sum_list (map duration_or_0 (filter P as))"

text \<open>Every bucket of a breakdown is 0.\<close>

definition all_zero :: "(string \<times> bucket_value) list \<Rightarrow> bool" where
  "all_zero kvs = list_all (\<lambda>kv. snd kv = Number 0) kvs"

text \<open>The type and the category of an activity are plain keys, as every value of the
  enums \<open>ActivityType\<close> and \<open>ActivityCategory\<close> is.\<close>

definition plain_keys :: "ParsedActivity \<Rightarrow> bool" where
  "plain_keys a = (plain_key (act_type a) \<and> plain_key (act_category a))"

text \<open>Every duration of the Map \<open>applicationDurations\<close> is 0.\<close>

definition all_zero_entries :: "(string \<times> int) list \<Rightarrow> bool" where
  "all_zero_entries kvs = list_all (\<lambda>kv. snd kv = 0) kvs"

text \<open>No activity of any session carries a duration.\<close>

definition no_durations :: "SessionManager \<Rightarrow> bool" where
  "no_durations sm =
     (\<forall>sessionId session. sessions sm sessionId = Some session
        \<longrightarrow> list_all (\<lambda>a. act_duration a = None) (activities session))"

text \<open>
  The values that cannot be converted to a string or to a number: an object with an own
  property \<open>toString\<close>, and an array with such an element, at any depth.
\<close>

fun unconvertible :: "jsval \<Rightarrow> bool" where
  "unconvertible (JObj kvs) = (map_of kvs ''toString'' \<noteq> None)"
| "unconvertible (JArr xs) = list_ex unconvertible xs"
| "unconvertible v = False"








definition speed_unconvertible :: "js_host \<Rightarrow> RawActivity \<Rightarrow> bool" where
  "speed_unconvertible h raw =
     (raw_type raw = ''keyboard'' \<and> truthy (raw_data raw)
      \<and> unconvertible (js_get h (raw_data raw) ''keys_per_second''))"



definition unparsable_browser_url :: "js_host \<Rightarrow> RawActivity \<Rightarrow> bool" where
  "unparsable_browser_url h raw =
     (case raw_context raw of
        None \<Rightarrow> False
      | Some c \<Rightarrow>
          (str_includes (toLowerCase (ctx_application c)) ''chrome''
           \<or> str_includes (toLowerCase (ctx_application c)) ''firefox'')
          \<and> (case ctx_url c of
                None \<Rightarrow> False
              | Some u \<Rightarrow> u \<noteq> [] \<and> (case URL_new h u of None \<Rightarrow> True | Some parsed \<Rightarrow> False)))"


text \<open>The values that the \<open>set_type\<close> and \<open>set_category\<close> actions of a rule set are plain
  keys.\<close>

definition plain_action :: "RuleAction \<Rightarrow> bool" where
  "plain_action action =
     (case action of
        set_type v \<Rightarrow> plain_key v
      | set_category v \<Rightarrow> plain_key v
      | _ \<Rightarrow> True)"

definition plain_rules :: "ParsingRule list \<Rightarrow> bool" where
  "plain_rules rs = list_all (\<lambda>rule. list_all plain_action (actions rule)) rs"

text \<open>The type and the category of a rule result, the categories of the cache and the
  activities of the sessions have plain keys only.\<close>

definition plain_result :: "RuleResult \<Rightarrow> bool" where
  "plain_result r =
     ((case rr_type r of None \<Rightarrow> True | Some v \<Rightarrow> plain_key v)
      \<and> (case rr_category r of None \<Rightarrow> True | Some v \<Rightarrow> plain_key v))"

definition plain_cache :: "ActivityCategorizer \<Rightarrow> bool" where
  "plain_cache cz = (\<forall>app c. categoryCache cz app = Some c \<longrightarrow> plain_key c)"

definition plain_sessions :: "SessionManager \<Rightarrow> bool" where
  "plain_sessions sm =
     (\<forall>sessionId session. sessions sm sessionId = Some session
        \<longrightarrow> list_all plain_keys (activities session))"

text \<open>
  The weighted average as the specification words it: every sub-score keeps its own
  weight (completeness 0.2, text quality 0.3, context quality 0.2, temporal consistency
  0.2, anomaly-free 0.1), and an absent sub-score takes its own weight out of the sum of
  the weights.
\<close>

definition spec_weighted_average :: "rat \<Rightarrow> rat option \<Rightarrow> rat option \<Rightarrow> rat \<Rightarrow> rat \<Rightarrow> rat" where
  "spec_weighted_average completeness textQuality contextQuality temporal anomalyFree =
     (let parts = [(completeness, 2/10)]
                  @ (case textQuality of None \<Rightarrow> [] | Some t \<Rightarrow> [(t, 3/10)])
                  @ (case contextQuality of None \<Rightarrow> [] | Some c \<Rightarrow> [(c, 2/10)])
                  @ [(temporal, 2/10), (anomalyFree, 1/10)]
      in sum_list (map (\<lambda>sw. fst sw * snd sw) parts) / sum_list (map snd parts))"

section \<open>Example inputs\<close>

text \<open>The record of the test \<open>should reject low quality activities\<close>: a timestamp in the
  future, empty \<open>device_id\<close> and \<open>session_id\<close>, an empty payload, no text, no context.\<close>

definition incomplete_record :: RawActivity where
  "incomplete_record =
     \<lparr>raw_id = ''test-6'', raw_timestamp = 1700001000000, raw_device_id = [],
      raw_session_id = [], raw_type = ''keyboard'', raw_data = JObj [],
      raw_processed_text = None, raw_context = None\<rparr>"


definition keyboard_record :: RawActivity where
  "keyboard_record =
     \<lparr>raw_id = ''test-4'', raw_timestamp = 1700000000000, raw_device_id = ''device-1'',
      raw_session_id = ''session-1'', raw_type = ''keyboard'', raw_data = JObj [],
      raw_processed_text = None, raw_context = None\<rparr>"

definition mouse_record :: RawActivity where
  "mouse_record =
     \<lparr>raw_id = ''batch-2'', raw_timestamp = 1700000001000, raw_device_id = ''device-1'',
      raw_session_id = ''session-1'', raw_type = ''mouse'',
      raw_data = JObj [(''action'', JStr ''click'')],
      raw_processed_text = None, raw_context = None\<rparr>"

text \<open>The record of the test \<open>should detect entertainment activity\<close>.\<close>

definition youtube_record :: RawActivity where
  "youtube_record =
     \<lparr>raw_id = ''test-5'', raw_timestamp = 1700000000000, raw_device_id = ''device-1'',
      raw_session_id = ''session-1'', raw_type = ''window'', raw_data = JObj [],
      raw_processed_text = None,
      raw_context = Some \<lparr>ctx_application = ''chrome'',
                           ctx_window_title = ''YouTube - Google Chrome'',
                           ctx_process_name = None,
                           ctx_url = Some ''https://youtube.com/watch?v=xyz''\<rparr>\<rparr>"

text \<open>A browser window whose URL does not parse.\<close>

definition bad_url_record :: RawActivity where
  "bad_url_record =
     \<lparr>raw_id = ''url-1'', raw_timestamp = 1700000000000, raw_device_id = ''device-1'',
      raw_session_id = ''session-1'', raw_type = ''window'', raw_data = JObj [],
      raw_processed_text = None,
      raw_context = Some \<lparr>ctx_application = ''chrome'',
                           ctx_window_title = ''New Tab - Google Chrome'',
                           ctx_process_name = None,
                           ctx_url = Some ''not a url''\<rparr>\<rparr>"

definition always_rule :: ParsingRule where
  "always_rule =
     \<lparr>rule_id = ''always'', rule_name = ''Always'', rule_description = ''No conditions'',
      priority = 10, conditions = [], actions = [add_tag ''seen''], enabled = True\<rparr>"

text \<open>The rule of the test \<open>should respect rule priority\<close>.\<close>

definition high_priority_rule :: ParsingRule where
  "high_priority_rule =
     \<lparr>rule_id = ''high-priority'', rule_name = ''High Priority Rule'',
      rule_description = ''Should execute first'', priority = 200,
      conditions = [\<lparr>cond_field = ''type'', cond_operator = ''equals'',
                     cond_value = JStr ''keyboard''\<rparr>],
      actions = [set_type ''high-priority-type''], enabled = True\<rparr>"

text \<open>A rule with a \<open>set_category\<close> action and no \<open>set_type\<close> action, and a rule that comes
  after it.\<close>

definition category_rule :: ParsingRule where
  "category_rule =
     \<lparr>rule_id = ''category'', rule_name = ''Category Rule'',
      rule_description = ''Sets the category only'', priority = 100,
      conditions = [\<lparr>cond_field = ''type'', cond_operator = ''equals'',
                     cond_value = JStr ''keyboard''\<rparr>],
      actions = [set_category ''productive'', add_tag ''typed''], enabled = True\<rparr>"





text \<open>Example 5 of the specification: 40 minutes of a productive activity and 20 minutes
  of a distracting one, in a session of 60 minutes.\<close>

definition productive_activity :: ParsedActivity where
  "productive_activity =
     \<lparr>act_id = ''a1'', act_timestamp = 1700000000000, act_device_id = ''device-1'',
      act_session_id = ''s1'', act_type = CODING, act_duration = Some 2400000,
      act_category = PRODUCTIVE, act_application = ''vscode'', act_window_title = ''main.ts'',
      act_content = [],
      act_metadata = \<lparr>confidence = 1, parser_version = ''0.1.0'', rules_applied = [],
                       meta_tags = []\<rparr>,
      act_quality_score = 1\<rparr>"

definition distracting_activity :: ParsedActivity where
  "distracting_activity =
     \<lparr>act_id = ''a2'', act_timestamp = 1700003600000, act_device_id = ''device-1'',
      act_session_id = ''s1'', act_type = BROWSING, act_duration = Some 1200000,
      act_category = DISTRACTING, act_application = ''chrome'', act_window_title = ''Feed'',
      act_content = [],
      act_metadata = \<lparr>confidence = 1, parser_version = ''0.1.0'', rules_applied = [],
                       meta_tags = []\<rparr>,
      act_quality_score = 1\<rparr>"

definition example_session :: SessionManager where
  "example_session =
     addActivity (addActivity SessionManager_new productive_activity) distracting_activity"

text \<open>A session of two activities, the first of the category \<open>__proto__\<close>.\<close>

definition proto_session :: SessionManager where
  "proto_session =
     addActivity
       (addActivity SessionManager_new
          (productive_activity\<lparr>act_category := ''__proto__'', act_duration := Some 1000\<rparr>))
       (productive_activity\<lparr>act_id := ''a2'', act_timestamp := 1700000001500,
                             act_duration := Some 500\<rparr>)"

text \<open>The record of the test \<open>should categorize browser activity\<close>.\<close>

definition github_record :: RawActivity where
  "github_record =
     \<lparr>raw_id = ''test-4'', raw_timestamp = 1700000000000, raw_device_id = ''device-1'',
      raw_session_id = ''session-1'', raw_type = ''window'', raw_data = JObj [],
      raw_processed_text = None,
      raw_context = Some \<lparr>ctx_application = ''chrome'',
                           ctx_window_title = ''GitHub - Google Chrome'',
                           ctx_process_name = None,
                           ctx_url = Some ''https://github.com/user/repo''\<rparr>\<rparr>"

text \<open>A rule that sets the category \<open>constructor\<close> for the records of a session, and a
  parser with this rule only.\<close>

definition constructor_rule :: ParsingRule where
  "constructor_rule =
     \<lparr>rule_id = ''constructor'', rule_name = ''Constructor'',
      rule_description = ''A category that is the name of an inherited member'',
      priority = 10,
      conditions = [\<lparr>cond_field = ''session_id'', cond_operator = ''equals'',
                     cond_value = JStr ''session-1''\<rparr>],
      actions = [set_category ''constructor''], enabled = True\<rparr>"

definition constructor_parser :: ActivityParser where
  "constructor_parser = ActivityParser_new (defaultParserConfig\<lparr>cfg_rules := [constructor_rule]\<rparr>)"

text \<open>Two records of one session, each with the time of its call.\<close>

definition example_feed :: "(int \<times> RawActivity) list" where
  "example_feed = [(1700000000500, keyboard_record), (1700000001500, mouse_record)]"

section \<open>Conversions\<close>










section \<open>QualityAnalyzer: the range of the score, and its weights\<close>














text \<open>The completeness score is 1 as soon as one field is there: \<open>score\<close> and \<open>fields\<close>
  are increased together, by the fields that are present only.\<close>

lemma completeness_zero_or_one:
  "calculateCompletenessScore a = 0 \<or> calculateCompletenessScore a = 1"
  by (simp add: calculateCompletenessScore_def count_field_def Let_def)

lemma completeness_with_id: "raw_id a \<noteq> [] \<Longrightarrow> calculateCompletenessScore a = 1"
  by (simp add: calculateCompletenessScore_def count_field_def Let_def)

text \<open>
  C5 (the completeness sub-score is the fraction of the expected fields that are present,
  so a record with an empty \<open>device_id\<close> and \<open>session_id\<close> scores strictly less than 1):
  the code gives such a record the score 1. The record is the one the repository's test
  \<open>should reject low quality activities\<close> expects to be rejected.
\<close>

theorem completeness_ignores_missing_fields:
  "raw_device_id incomplete_record = [] \<and> raw_session_id incomplete_record = []
   \<and> calculateCompletenessScore incomplete_record = 1"
  by (simp add: calculateCompletenessScore_def incomplete_record_def count_field_def)

text \<open>With all five sub-scores present the loop uses the weights as the specification
  lists them; without the text score the context score takes the weight 0.3 of the text
  score and the anomaly score the weight 0.2, and 0.1 leaves the denominator.\<close>

lemma finalScore_all_present:
  "finalScore [c, t, x, tm, an] = spec_weighted_average c (Some t) (Some x) tm an"
  by (simp add: finalScore_def spec_weighted_average_def weight_at_def weights_def Let_def)

lemma finalScore_without_text:
  "finalScore [c, x, tm, an] = (c * (2/10) + x * (3/10) + tm * (2/10) + an * (2/10)) / (9/10)"
  by (simp add: finalScore_def weight_at_def weights_def Let_def)

text \<open>
  C4 (the sub-scores are averaged with the weights 0.2, 0.3, 0.2, 0.2, 0.1, and an absent
  sub-score takes exactly its own weight out of the denominator): for a record with no
  text and no context the code weights the temporal score by 0.3 and the anomaly score
  by 0.2 and divides by 0.7. At the record below (completeness 1, timestamp in the
  future, no anomaly) it returns 0.7 where the specified weights give 0.72.
\<close>

theorem weights_shift_when_a_score_is_absent:
  "fst (analyze h (QualityAnalyzer_new th) 1700000000000 incomplete_record) = Inr (7/10)
   \<and> detectAnomalies h (QualityAnalyzer_new th) incomplete_record = Inr 1
   \<and> spec_weighted_average (calculateCompletenessScore incomplete_record) None None
        (calculateTemporalScore 1700000000000 incomplete_record) 1 = 18/25"
  by (simp add: analyze_def finalScore_def analyze_scores_def calculateCompletenessScore_def
      incomplete_record_def count_field_def calculateTemporalScore_def detectAnomalies_def
      js_gt_num_def weight_at_def weights_def spec_weighted_average_def Let_def
      plain_key_def Object_prototype_members_def)

section \<open>SessionManager: the summary of a session\<close>

lemma plain_key_not_proto: "plain_key k \<Longrightarrow> k \<noteq> ''__proto__''"
  by (auto simp: plain_key_def Object_prototype_members_def)

lemma values_sum_lookup:
  "values_sum kvs = Some t \<Longrightarrow> map_of kvs k = Some v \<Longrightarrow> \<exists>n. v = Number n"
  by (induction kvs arbitrary: t) (auto split: bucket_value.splits option.splits if_splits)

lemma values_sum_bucket: "values_sum kvs = Some t \<Longrightarrow> \<exists>n. bucket kvs k = Number n"
  using values_sum_lookup[of kvs t k] by (cases "map_of kvs k") (auto simp: bucket_def)

text \<open>On a breakdown whose values are numbers, adding to a plain key adds to its bucket.\<close>

lemma add_to_key_plain:
  assumes "plain_key k" "values_sum obj = Some t"
  shows "\<exists>n. bucket obj k = Number n \<and> add_to_key h k d obj = set_key k (Number (n + d)) obj"
proof (cases "map_of obj k")
  case None
  with assms show ?thesis
    by (simp add: add_to_key_def bucket_def assign_key_def plain_key_not_proto)
next
  case (Some v)
  with values_sum_lookup[OF assms(2)] obtain n where v: "v = Number n" by blast
  with Some assms show ?thesis
    by (simp add: add_to_key_def bucket_def assign_key_def plain_key_not_proto)
qed

lemma values_sum_set_key:
  "values_sum obj = Some t \<Longrightarrow> bucket obj k = Number n \<Longrightarrow>
   values_sum (set_key k (Number x) obj) = Some (t - n + x)"
proof (induction obj arbitrary: t)
  case Nil
  then show ?case by (simp add: bucket_def)
next
  case (Cons kv obj)
  obtain k' v where kv: "kv = (k', v)" by (cases kv)
  from Cons.prems(1) kv obtain m t' where v: "v = Number m" and t': "values_sum obj = Some t'"
    and t: "t = m + t'"
    by (auto split: bucket_value.splits option.splits)
  show ?case
  proof (cases "k' = k")
    case True
    with Cons.prems(2) kv v have "n = m" by (simp add: bucket_def)
    with True kv v t' t show ?thesis by simp
  next
    case False
    with Cons.prems(2) kv have "bucket obj k = Number n" by (simp add: bucket_def)
    from Cons.IH[OF t' this] False kv v t show ?thesis by simp
  qed
qed

lemma bucket_set_key: "bucket (set_key k v obj) k' = (if k' = k then v else bucket obj k')"
  by (induction obj) (auto simp: bucket_def)

lemma keys_set_key: "fst ` set (set_key k v kvs) = insert k (fst ` set kvs)"
proof (induction kvs)
  case Nil
  show ?case by simp
next
  case (Cons kv kvs)
  obtain k' v' where kv: "kv = (k', v')" by (cases kv)
  show ?case
  proof (cases "k' = k")
    case True
    then show ?thesis by (simp add: kv insert_absorb)
  next
    case False
    then show ?thesis by (simp add: kv Cons.IH insert_commute)
  qed
qed

lemma distinct_set_key:
  "distinct (map fst kvs) \<Longrightarrow> distinct (map fst (set_key k v kvs))"
proof (induction kvs)
  case Nil
  show ?case by simp
next
  case (Cons kv kvs)
  obtain k' v' where kv: "kv = (k', v')" by (cases kv)
  show ?case
  proof (cases "k' = k")
    case True
    then show ?thesis using Cons.prems by (simp add: kv)
  next
    case False
    then show ?thesis using Cons by (simp add: kv keys_set_key)
  qed
qed

lemma add_to_key_sum:
  assumes "plain_key k" "values_sum obj = Some t"
  shows "values_sum (add_to_key h k d obj) = Some (t + d)"
proof -
  from add_to_key_plain[OF assms] obtain n where n: "bucket obj k = Number n"
    and a: "add_to_key h k d obj = set_key k (Number (n + d)) obj" by blast
  from values_sum_set_key[OF assms(2) n] a show ?thesis by simp
qed

lemma add_to_key_bucket:
  assumes "plain_key k" "values_sum obj = Some t" "bucket obj k' = Number m"
  shows "bucket (add_to_key h k d obj) k' = Number (m + (if k' = k then d else 0))"
proof -
  from add_to_key_plain[OF assms(1,2)] obtain n where n: "bucket obj k = Number n"
    and a: "add_to_key h k d obj = set_key k (Number (n + d)) obj" by blast
  from n assms(3) a show ?thesis by (auto simp: bucket_set_key)
qed

lemma add_to_key_distinct:
  "distinct (map fst obj) \<Longrightarrow> distinct (map fst (add_to_key h k d obj))"
  by (simp add: add_to_key_def assign_key_def distinct_set_key)

text \<open>One turn of the loop, for an activity whose type and category are plain keys:
  the duration is added once to the active or the idle total, once to the bucket of the
  category and once to the bucket of the type.\<close>

lemma summary_step_totals:
  "acc_activeDuration (summary_step h acc a) + acc_idleDuration (summary_step h acc a)
     = acc_activeDuration acc + acc_idleDuration acc + duration_or_0 a"
  by (simp add: summary_step_def Let_def)

lemma summary_step_category:
  assumes "plain_keys a" "values_sum (acc_categoryBreakdown acc) = Some t"
  shows "values_sum (acc_categoryBreakdown (summary_step h acc a))
           = Some (t + duration_or_0 a)"
    and "bucket (acc_categoryBreakdown acc) c = Number m \<Longrightarrow>
         bucket (acc_categoryBreakdown (summary_step h acc a)) c
           = Number (m + (if act_category a = c then duration_or_0 a else 0))"
  using assms add_to_key_sum[of "act_category a" "acc_categoryBreakdown acc" t h]
    add_to_key_bucket[of "act_category a" "acc_categoryBreakdown acc" t c m h]
  by (auto simp: summary_step_def Let_def plain_keys_def)

lemma summary_step_type:
  assumes "plain_keys a" "values_sum (acc_activityBreakdown acc) = Some t"
  shows "values_sum (acc_activityBreakdown (summary_step h acc a))
           = Some (t + duration_or_0 a)"
    and "bucket (acc_activityBreakdown acc) c = Number m \<Longrightarrow>
         bucket (acc_activityBreakdown (summary_step h acc a)) c
           = Number (m + (if act_type a = c then duration_or_0 a else 0))"
  using assms add_to_key_sum[of "act_type a" "acc_activityBreakdown acc" t h]
    add_to_key_bucket[of "act_type a" "acc_activityBreakdown acc" t c m h]
  by (auto simp: summary_step_def Let_def plain_keys_def)

lemma summary_step_distinct:
  "distinct (map fst (acc_categoryBreakdown acc)) \<Longrightarrow>
   distinct (map fst (acc_categoryBreakdown (summary_step h acc a)))"
  "distinct (map fst (acc_activityBreakdown acc)) \<Longrightarrow>
   distinct (map fst (acc_activityBreakdown (summary_step h acc a)))"
  by (simp_all add: summary_step_def Let_def add_to_key_distinct)

lemma summary_fold_totals:
  "acc_activeDuration (foldl (summary_step h) acc as)
     + acc_idleDuration (foldl (summary_step h) acc as)
     = acc_activeDuration acc + acc_idleDuration acc + sum_list (map duration_or_0 as)"
  by (induction as arbitrary: acc) (simp_all add: summary_step_totals)

lemma summary_fold_category:
  "list_all plain_keys as \<Longrightarrow> values_sum (acc_categoryBreakdown acc) = Some t \<Longrightarrow>
   bucket (acc_categoryBreakdown acc) c = Number m \<Longrightarrow>
   values_sum (acc_categoryBreakdown (foldl (summary_step h) acc as))
     = Some (t + sum_list (map duration_or_0 as))
   \<and> bucket (acc_categoryBreakdown (foldl (summary_step h) acc as)) c
     = Number (m + (durations_where (\<lambda>a. act_category a = c) as))"
proof (induction as arbitrary: acc t m)
  case Nil
  then show ?case by (simp add: durations_where_def)
next
  case (Cons a as)
  from Cons.prems(1) have a: "plain_keys a" and rest: "list_all plain_keys as" by simp_all
  from Cons.IH[OF rest summary_step_category(1)[OF a Cons.prems(2)]
         summary_step_category(2)[OF a Cons.prems(2) Cons.prems(3)], where h1 = h]
  show ?case by (simp add: durations_where_def algebra_simps)
qed

lemma summary_fold_type:
  "list_all plain_keys as \<Longrightarrow> values_sum (acc_activityBreakdown acc) = Some t \<Longrightarrow>
   bucket (acc_activityBreakdown acc) c = Number m \<Longrightarrow>
   values_sum (acc_activityBreakdown (foldl (summary_step h) acc as))
     = Some (t + sum_list (map duration_or_0 as))
   \<and> bucket (acc_activityBreakdown (foldl (summary_step h) acc as)) c
     = Number (m + (durations_where (\<lambda>a. act_type a = c) as))"
proof (induction as arbitrary: acc t m)
  case Nil
  then show ?case by (simp add: durations_where_def)
next
  case (Cons a as)
  from Cons.prems(1) have a: "plain_keys a" and rest: "list_all plain_keys as" by simp_all
  from Cons.IH[OF rest summary_step_type(1)[OF a Cons.prems(2)]
         summary_step_type(2)[OF a Cons.prems(2) Cons.prems(3)], where h1 = h]
  show ?case by (simp add: durations_where_def algebra_simps)
qed

lemma summary_fold_distinct:
  "distinct (map fst (acc_categoryBreakdown acc)) \<Longrightarrow>
   distinct (map fst (acc_activityBreakdown acc)) \<Longrightarrow>
   distinct (map fst (acc_categoryBreakdown (foldl (summary_step h) acc as)))
   \<and> distinct (map fst (acc_activityBreakdown (foldl (summary_step h) acc as)))"
  by (induction as arbitrary: acc) (simp_all add: summary_step_distinct)

lemma summary_sums:
  assumes "getSessionSummary h sm sessionId = Some s"
    and "list_all plain_keys (activities (the (sessions sm sessionId)))"
  shows "values_sum (category_breakdown s) = Some (active_duration s + idle_duration s)
         \<and> values_sum (activity_breakdown s) = Some (active_duration s + idle_duration s)
         \<and> distinct (map fst (category_breakdown s)) \<and> distinct (map fst (activity_breakdown s))
         \<and> bucket (category_breakdown s) c
             = Number (durations_where (\<lambda>a. act_category a = c)
                               (activities (the (sessions sm sessionId))))
         \<and> bucket (activity_breakdown s) t
             = Number (durations_where (\<lambda>a. act_type a = t)
                               (activities (the (sessions sm sessionId))))"
proof -
  from assms(1) obtain session where se: "sessions sm sessionId = Some session"
    by (auto simp: getSessionSummary_def split: option.splits)
  let ?init = "\<lparr>acc_activeDuration = 0, acc_idleDuration = 0, acc_activityBreakdown = [],
                acc_categoryBreakdown = [], acc_applicationDurations = []\<rparr>"
  let ?acc = "foldl (summary_step h) ?init (activities session)"
  from assms(1) se have s: "active_duration s = acc_activeDuration ?acc"
    "idle_duration s = acc_idleDuration ?acc"
    "category_breakdown s = acc_categoryBreakdown ?acc"
    "activity_breakdown s = acc_activityBreakdown ?acc"
    by (auto simp: getSessionSummary_def summary_loop_def Let_def split: if_splits)
  from assms(2) se have p: "list_all plain_keys (activities session)" by simp
  have tot: "acc_activeDuration ?acc + acc_idleDuration ?acc
               = sum_list (map duration_or_0 (activities session))"
    using summary_fold_totals[where h = h and acc = ?init and as = "activities session"] by simp
  have cat: "values_sum (acc_categoryBreakdown ?acc)
               = Some (sum_list (map duration_or_0 (activities session)))
             \<and> bucket (acc_categoryBreakdown ?acc) c
               = Number (durations_where (\<lambda>a. act_category a = c) (activities session))"
    using summary_fold_category[OF p, where acc = ?init and t = 0 and c = c and m = 0 and h = h]
    by (simp add: bucket_def)
  have ty: "values_sum (acc_activityBreakdown ?acc)
               = Some (sum_list (map duration_or_0 (activities session)))
             \<and> bucket (acc_activityBreakdown ?acc) t
               = Number (durations_where (\<lambda>a. act_type a = t) (activities session))"
    using summary_fold_type[OF p, where acc = ?init and t = 0 and c = t and m = 0 and h = h]
    by (simp add: bucket_def)
  have di: "distinct (map fst (acc_categoryBreakdown ?acc))
            \<and> distinct (map fst (acc_activityBreakdown ?acc))"
    using summary_fold_distinct[where acc = ?init and h = h and as = "activities session"] by simp
  show ?thesis unfolding s using tot cat ty di se by simp
qed

lemma summary_exists:
  assumes "sessions sm sessionId = Some session" "activities session \<noteq> []"
  shows "getSessionSummary h sm sessionId \<noteq> None"
  using assms by (simp add: getSessionSummary_def Let_def)

text \<open>
  C9 (in the summary of a session with at least one activity the values of
  \<open>category_breakdown\<close> sum to \<open>active_duration + idle_duration\<close>, every activity's
  duration, 0 when absent, being counted in exactly one category bucket and exactly one
  type bucket), for the sessions whose activities have a type and a category that are
  plain keys, as all values of the enums \<open>ActivityType\<close> and \<open>ActivityCategory\<close> are: such
  a session with at least one activity has a summary; in it the values of both
  breakdowns are numbers that sum to the active plus the idle duration, the keys of each
  are distinct, and the bucket of a category (of a type) holds the summed durations of
  the session's activities of that category (of that type).
\<close>

theorem category_breakdown_sums:
  assumes "sessions sm sessionId = Some session" "activities session \<noteq> []"
    and "list_all plain_keys (activities session)"
  shows "\<exists>s. getSessionSummary h sm sessionId = Some s
           \<and> values_sum (category_breakdown s)
               = Some (active_duration s + idle_duration s)
           \<and> values_sum (activity_breakdown s)
               = Some (active_duration s + idle_duration s)
           \<and> distinct (map fst (category_breakdown s))
           \<and> distinct (map fst (activity_breakdown s))
           \<and> (\<forall>c. bucket (category_breakdown s) c
                      = Number (durations_where (\<lambda>a. act_category a = c)
                                        (activities session)))
           \<and> (\<forall>t. bucket (activity_breakdown s) t
                      = Number (durations_where (\<lambda>a. act_type a = t)
                                        (activities session)))"
proof -
  from summary_exists[OF assms(1,2)] obtain s where s: "getSessionSummary h sm sessionId = Some s"
    by blast
  from assms(1,3) have "list_all plain_keys (activities (the (sessions sm sessionId)))" by simp
  from summary_sums[OF s this] assms(1) s show ?thesis by auto
qed

theorem category_breakdown_sums_witness:
  "sessions example_session ''s1'' \<noteq> None
   \<and> activities (the (sessions example_session ''s1'')) \<noteq> []
   \<and> list_all plain_keys (activities (the (sessions example_session ''s1'')))
   \<and> (\<exists>s. getSessionSummary plain_host example_session ''s1'' = Some s
          \<and> category_breakdown s = [(PRODUCTIVE, Number 2400000), (DISTRACTING, Number 1200000)]
          \<and> values_sum (category_breakdown s)
              = Some (active_duration s + idle_duration s)
          \<and> active_duration s + idle_duration s = 3600000
          \<and> bucket (category_breakdown s) PRODUCTIVE
              = Number (durations_where (\<lambda>a. act_category a = PRODUCTIVE)
                                (activities (the (sessions example_session ''s1'')))))"
proof -
  have n: "sessions example_session ''s1'' \<noteq> None"
    and a: "activities (the (sessions example_session ''s1'')) \<noteq> []"
    and p: "list_all plain_keys (activities (the (sessions example_session ''s1'')))"
    by code_simp+
  from n have h: "sessions example_session ''s1'' = Some (the (sessions example_session ''s1''))"
    by simp
  have cb: "map_option category_breakdown (getSessionSummary plain_host example_session ''s1'')
          = Some [(PRODUCTIVE, Number 2400000), (DISTRACTING, Number 1200000)]"
    by code_simp
  from category_breakdown_sums[OF h a p, of plain_host] obtain s
    where s: "getSessionSummary plain_host example_session ''s1'' = Some s"
      and sm: "values_sum (category_breakdown s)
                 = Some (active_duration s + idle_duration s)"
      and b: "bucket (category_breakdown s) PRODUCTIVE
                = Number (durations_where (\<lambda>a. act_category a = PRODUCTIVE)
                                  (activities (the (sessions example_session ''s1''))))"
    by blast
  from cb s have c: "category_breakdown s = [(PRODUCTIVE, Number 2400000), (DISTRACTING, Number 1200000)]"
    by simp
  from sm c have "active_duration s + idle_duration s = 3600000" by simp
  with n a p s sm b c show ?thesis by blast
qed

text \<open>
  The claim C9 fails at a session with an activity of the category \<open>__proto__\<close> (a rule
  can set any string as the category): the breakdowns are plain objects, the assignment
  to \<open>categoryBreakdown['__proto__']\<close> writes nothing, and the 1000 ms of that activity
  are in the active duration and in no category bucket. The buckets sum to 500, the
  active and the idle duration to 1500.
\<close>

theorem proto_category_is_not_counted:
  "map_option category_breakdown (getSessionSummary plain_host proto_session ''s1'')
     = Some [(PRODUCTIVE, Number 500)]
   \<and> map_option (values_sum \<circ> category_breakdown)
       (getSessionSummary plain_host proto_session ''s1'') = Some (Some 500)
   \<and> map_option (\<lambda>s. active_duration s + idle_duration s)
       (getSessionSummary plain_host proto_session ''s1'') = Some 1500"
  by code_simp

text \<open>\<open>weights[category] || 0.5\<close> replaces the weight 0 of a distracting activity by
  0.5, as it does for a category that is not in the table.\<close>

lemma distracting_weight: "category_weight h DISTRACTING = Some (5/10)"
  by (simp add: category_weight_def productivity_weights_def PRODUCTIVE_def
      LEARNING_def COMMUNICATION_def NEUTRAL_def BREAK_def ENTERTAINMENT_def DISTRACTING_def)

text \<open>
  C3 (the productivity score weights distracting time by 0.0, so 40 minutes of productive
  and 20 minutes of distracting activity have the base score 66.7): the code weights the
  distracting 20 minutes by 0.5. Its base score is 83.3 and, the active ratio being 1, the
  score of the summary is 91.7 (where the weight 0.0 would give 73.3).
\<close>

theorem distracting_time_counts_half:
  "calculateProductivityScore h
     [(PRODUCTIVE, Number 2400000), (DISTRACTING, Number 1200000)] 3600000 3600000
     = Some (275/3)
   \<and> map_option total_duration (getSessionSummary h example_session ''s1'') = Some 3600000
   \<and> map_option productivity_score (getSessionSummary h example_session ''s1'')
       = Some (Some (275/3))"
  by code_simp
section \<open>RuleEngine\<close>

lemma hit_count_recordHit:
  "hit_count (recordHit hits r) k = (if k = r then hit_count hits r + 1 else hit_count hits k)"
  by (simp add: hit_count_def recordHit_def Let_def)

lemma extractContent_keeps:
  "extractContent h f p t a result = Inr result' \<Longrightarrow>
   applied_rules result' = applied_rules result \<and> tags result' = tags result"
  by (auto simp: extractContent_def split: jsval.splits if_splits option.splits prod.splits)

lemma applyAction_keeps:
  "applyAction h action a result = Inr result' \<Longrightarrow>
   applied_rules result' = applied_rules result \<and> set (tags result) \<subseteq> set (tags result')"
  by (cases action) (auto dest: extractContent_keeps)

lemma applyActions_keeps:
  "applyActions h acts a result = Inr result' \<Longrightarrow>
   applied_rules result' = applied_rules result \<and> set (tags result) \<subseteq> set (tags result')"
proof (induction acts arbitrary: result)
  case Nil
  then show ?case by simp
next
  case (Cons action rest)
  then obtain r1 where r1: "applyAction h action a result = Inr r1"
    and r2: "applyActions h rest a r1 = Inr result'"
    by (auto split: sum.splits)
  from applyAction_keeps[OF r1] Cons.IH[OF r2] show ?case by auto
qed

lemma applyActions_tags:
  "applyActions h acts a result = Inr result' \<Longrightarrow> add_tag v \<in> set acts \<Longrightarrow>
   v \<in> set (tags result')"
proof (induction acts arbitrary: result)
  case Nil
  then show ?case by simp
next
  case (Cons action rest)
  then obtain r1 where r1: "applyAction h action a result = Inr r1"
    and r2: "applyActions h rest a r1 = Inr result'"
    by (auto split: sum.splits)
  show ?case
  proof (cases "action = add_tag v")
    case True
    with r1 have "v \<in> set (tags r1)" by auto
    with applyActions_keeps[OF r2] show ?thesis by auto
  next
    case False
    with Cons.prems(2) have "add_tag v \<in> set rest" by auto
    from Cons.IH[OF r2 this] show ?thesis .
  qed
qed

text \<open>The loop only adds to the applied rules, to the tags and to the hit counters.\<close>

lemma apply_loop_mono:
  "apply_loop h rs a result hits = (Inr res, hits') \<Longrightarrow>
   set (applied_rules result) \<subseteq> set (applied_rules res)
   \<and> set (tags result) \<subseteq> set (tags res)
   \<and> hit_count hits k \<le> hit_count hits' k"
proof (induction rs arbitrary: result hits)
  case Nil
  then show ?case by simp
next
  case (Cons rule rest)
  show ?case
  proof (cases "enabled rule \<and> evaluateConditions h (conditions rule) a = Inr True")
    case False
    with Cons.prems have "apply_loop h rest a result hits = (Inr res, hits')"
      by (auto split: sum.splits if_splits)
    from Cons.IH[OF this] show ?thesis .
  next
    case True
    with Cons.prems obtain r1 where r1: "applyActions h (actions rule) a result = Inr r1"
      by (auto split: sum.splits)
    let ?r2 = "r1\<lparr>applied_rules := applied_rules r1 @ [rule_id rule]\<rparr>"
    let ?h2 = "recordHit hits (rule_id rule)"
    note k = applyActions_keeps[OF r1]
    have hc: "hit_count hits k \<le> hit_count ?h2 k" by (simp add: hit_count_recordHit)
    show ?thesis
    proof (cases "isExclusiveRule rule")
      case True
      with \<open>enabled rule \<and> _\<close> r1 Cons.prems have "res = ?r2" "hits' = ?h2"
        by (auto simp: Let_def)
      with k hc show ?thesis by auto
    next
      case False
      with \<open>enabled rule \<and> _\<close> r1 Cons.prems
      have "apply_loop h rest a ?r2 ?h2 = (Inr res, hits')"
        by (auto simp: Let_def)
      from Cons.IH[OF this] k hc show ?thesis by auto
    qed
  qed
qed

subsection \<open>A rule without conditions\<close>

lemma empty_conditions_loop:
  assumes "enabled rule" "conditions rule = []"
    and "apply_loop h (pre @ rule # post) a result hits = (Inr res, hits')"
  shows "(rule_id rule \<in> set (applied_rules res)
          \<and> hit_count hits (rule_id rule) < hit_count hits' (rule_id rule)
          \<and> (\<forall>v. add_tag v \<in> set (actions rule) \<longrightarrow> v \<in> set (tags res)))
         \<or> (\<exists>q \<in> set pre. enabled q \<and> isExclusiveRule q
               \<and> rule_id q \<in> set (applied_rules res))"
  using assms(3)
proof (induction pre arbitrary: result hits)
  case Nil
  from Nil assms(1,2) obtain r1 where r1: "applyActions h (actions rule) a result = Inr r1"
    by (auto split: sum.splits)
  let ?r2 = "r1\<lparr>applied_rules := applied_rules r1 @ [rule_id rule]\<rparr>"
  let ?h2 = "recordHit hits (rule_id rule)"
  have t: "\<forall>v. add_tag v \<in> set (actions rule) \<longrightarrow> v \<in> set (tags ?r2)"
    using applyActions_tags[OF r1] by simp
  have hc: "hit_count hits (rule_id rule) < hit_count ?h2 (rule_id rule)"
    by (simp add: hit_count_recordHit)
  show ?case
  proof (cases "isExclusiveRule rule")
    case True
    with Nil assms(1,2) r1 have "res = ?r2" "hits' = ?h2" by (auto simp: Let_def)
    with t hc show ?thesis by auto
  next
    case False
    with Nil assms(1,2) r1 have "apply_loop h post a ?r2 ?h2 = (Inr res, hits')"
      by (auto simp: Let_def)
    from apply_loop_mono[OF this, of "rule_id rule"] t hc show ?thesis by auto
  qed
next
  case (Cons q pre')
  show ?case
  proof (cases "enabled q \<and> evaluateConditions h (conditions q) a = Inr True")
    case False
    with Cons.prems have "apply_loop h (pre' @ rule # post) a result hits = (Inr res, hits')"
      by (auto split: sum.splits if_splits)
    from Cons.IH[OF this] show ?thesis by auto
  next
    case True
    with Cons.prems obtain r1 where r1: "applyActions h (actions q) a result = Inr r1"
      by (auto split: sum.splits)
    let ?r2 = "r1\<lparr>applied_rules := applied_rules r1 @ [rule_id q]\<rparr>"
    let ?h2 = "recordHit hits (rule_id q)"
    have hc: "hit_count hits (rule_id rule) \<le> hit_count ?h2 (rule_id rule)"
      by (simp add: hit_count_recordHit)
    show ?thesis
    proof (cases "isExclusiveRule q")
      case e: True
      with True r1 Cons.prems have "res = ?r2" by (auto simp: Let_def)
      with True e show ?thesis by auto
    next
      case e: False
      with True r1 Cons.prems
      have "apply_loop h (pre' @ rule # post) a ?r2 ?h2 = (Inr res, hits')"
        by (auto simp: Let_def)
      from Cons.IH[OF this] hc show ?thesis by auto
    qed
  qed
qed

text \<open>
  C6 (an enabled rule whose conditions list is empty is never treated as matching),
  as the code has it: \<open>conditions.every(...)\<close> is true for an empty list, so the rule
  always matches. Whenever \<open>apply\<close> returns a result, either the rule's id is among the
  applied rules, its hit counter has grown and the tags of its \<open>add_tag\<close> actions are in
  the result, or an exclusive rule that comes before it in the evaluation order was
  applied and ended the loop.
\<close>

theorem empty_conditions_rule_matches:
  assumes "rules eng = pre @ rule # post" "enabled rule" "conditions rule = []"
    and "RuleEngine_apply h eng a = (Inr res, eng')"
  shows "evaluateConditions h (conditions rule) a = Inr True
         \<and> ((rule_id rule \<in> set (applied_rules res)
              \<and> hit_count (ruleHits eng) (rule_id rule) < hit_count (ruleHits eng') (rule_id rule)
              \<and> (\<forall>v. add_tag v \<in> set (actions rule) \<longrightarrow> v \<in> set (tags res)))
             \<or> (\<exists>q \<in> set pre. enabled q \<and> isExclusiveRule q
                    \<and> rule_id q \<in> set (applied_rules res)))"
proof -
  obtain hits' where
    l: "apply_loop h (pre @ rule # post) a empty_result (ruleHits eng) = (Inr res, hits')"
    and e: "eng' = eng\<lparr>ruleHits := hits'\<rparr>"
    using assms(1,4) by (auto simp: RuleEngine_apply_def split: prod.splits)
  from empty_conditions_loop[OF assms(2,3) l] e assms(3) show ?thesis by simp
qed

theorem empty_conditions_rule_matches_witness:
  "rules (RuleEngine_new [always_rule]) = [] @ always_rule # []
   \<and> enabled always_rule \<and> conditions always_rule = []
   \<and> (\<exists>res eng'.
         RuleEngine_apply plain_host (RuleEngine_new [always_rule]) keyboard_record
           = (Inr res, eng')
         \<and> rule_id always_rule \<in> set (applied_rules res)
         \<and> hit_count (ruleHits (RuleEngine_new [always_rule])) (rule_id always_rule)
             < hit_count (ruleHits eng') (rule_id always_rule)
         \<and> ''seen'' \<in> set (tags res))"
proof -
  let ?x = "RuleEngine_apply plain_host (RuleEngine_new [always_rule]) keyboard_record"
  have h1: "rules (RuleEngine_new [always_rule]) = [] @ always_rule # []"
    by (simp add: RuleEngine_new_def sortRulesByPriority_def)
  have h2: "enabled always_rule" and h3: "conditions always_rule = []"
    and t: "add_tag ''seen'' \<in> set (actions always_rule)"
    by (simp_all add: always_rule_def)
  have "\<not> isl (fst ?x)" by code_simp
  then obtain res where "fst ?x = Inr res" by (cases "fst ?x") auto
  then have h4: "?x = (Inr res, snd ?x)" by (cases ?x) simp
  from empty_conditions_rule_matches[OF h1 h2 h3 h4] t h1 h2 h3 h4 show ?thesis by auto
qed

text \<open>The claim C6 fails at a rule set that holds one rule without conditions: the rule is
  applied to a record, its tag is added, its id recorded and its hit counter set to 1.\<close>

theorem empty_conditions_rule_is_applied:
  "enabled always_rule \<and> conditions always_rule = []
   \<and> fst (RuleEngine_apply plain_host (RuleEngine_new [always_rule]) keyboard_record)
       = Inr \<lparr>rr_type = None, rr_category = None, tags = [''seen''], content = [],
              applied_rules = [''always'']\<rparr>
   \<and> hit_count
        (ruleHits (snd (RuleEngine_apply plain_host (RuleEngine_new [always_rule]) keyboard_record)))
        ''always'' = 1"
  by code_simp

subsection \<open>When the rule engine throws\<close>









text \<open>\<open>isExclusiveRule\<close> holds of the rules whose actions include a \<open>set_type\<close> or a
  \<open>set_category\<close>, and of no other rule.\<close>

lemma is_set_action_iff:
  "is_set_action action \<longleftrightarrow> (\<exists>v. action = set_type v) \<or> (\<exists>v. action = set_category v)"
  by (cases action) auto

lemma isExclusiveRule_iff:
  "isExclusiveRule rule \<longleftrightarrow>
     (\<exists>v. set_type v \<in> set (actions rule)) \<or> (\<exists>v. set_category v \<in> set (actions rule))"
  unfolding isExclusiveRule_def list_ex_iff is_set_action_iff by blast







subsection \<open>Exclusive rules\<close>

lemma exclusive_loop:
  assumes "enabled rule" "isExclusiveRule rule"
    and "evaluateConditions h (conditions rule) a = Inr True"
  shows "apply_loop h (pre @ rule # post) a result hits
           = apply_loop h (pre @ [rule]) a result hits"
proof (induction pre arbitrary: result hits)
  case Nil
  show ?case using assms by (simp add: Let_def split: sum.splits)
next
  case (Cons q pre')
  show ?case by (simp add: Cons.IH Let_def split: sum.splits)
qed

text \<open>
  C7 (once a rule whose actions include \<open>set_type\<close> or \<open>set_category\<close> matches, no action
  of a rule evaluated after it is applied and no further rule id is recorded): when the
  conditions of an enabled rule whose actions include a \<open>set_type\<close> or a \<open>set_category\<close>
  hold of the record, the rules that follow it in the evaluation order have no effect at
  all. The outcome of \<open>apply\<close> (the result or the exception) and the hit counters are
  those of the engine without the rules after it.
\<close>

theorem exclusive_rule_stops:
  assumes "rules eng = pre @ rule # post" "enabled rule"
    and "(\<exists>v. set_type v \<in> set (actions rule)) \<or> (\<exists>v. set_category v \<in> set (actions rule))"
    and "evaluateConditions h (conditions rule) a = Inr True"
  shows "fst (RuleEngine_apply h eng a)
           = fst (RuleEngine_apply h (eng\<lparr>rules := pre @ [rule]\<rparr>) a)
         \<and> ruleHits (snd (RuleEngine_apply h eng a))
             = ruleHits (snd (RuleEngine_apply h (eng\<lparr>rules := pre @ [rule]\<rparr>) a))"
proof -
  from assms(3) have "isExclusiveRule rule" by (simp only: isExclusiveRule_iff)
  from exclusive_loop[OF assms(2) this assms(4), of pre post empty_result "ruleHits eng"]
    assms(1)
  show ?thesis by (simp add: RuleEngine_apply_def split: prod.splits)
qed

theorem exclusive_rule_stops_witness:
  "rules (RuleEngine_new [always_rule, category_rule]) = [] @ category_rule # [always_rule]
   \<and> enabled category_rule
   \<and> set_category ''productive'' \<in> set (actions category_rule)
   \<and> (\<forall>v. set_type v \<notin> set (actions category_rule))
   \<and> evaluateConditions plain_host (conditions category_rule) keyboard_record = Inr True
   \<and> fst (RuleEngine_apply plain_host (RuleEngine_new [always_rule, category_rule])
            keyboard_record)
       = Inr \<lparr>rr_type = None, rr_category = Some ''productive'', tags = [''typed''],
              content = [], applied_rules = [''category'']\<rparr>
   \<and> hit_count
        (ruleHits (snd (RuleEngine_apply plain_host (RuleEngine_new [always_rule, category_rule])
                          keyboard_record))) ''always'' = 0"
proof -
  let ?eng = "RuleEngine_new [always_rule, category_rule]"
  have h1: "rules ?eng = [] @ category_rule # [always_rule]" by code_simp
  have h2: "enabled category_rule"
    and c: "set_category ''productive'' \<in> set (actions category_rule)"
    and t: "\<forall>v. set_type v \<notin> set (actions category_rule)"
    by (simp_all add: category_rule_def)
  from c have h3: "(\<exists>v. set_type v \<in> set (actions category_rule))
                    \<or> (\<exists>v. set_category v \<in> set (actions category_rule))"
    by blast
  have h4: "evaluateConditions plain_host (conditions category_rule) keyboard_record = Inr True"
    by code_simp
  have r: "fst (RuleEngine_apply plain_host (?eng\<lparr>rules := [] @ [category_rule]\<rparr>)
                  keyboard_record)
          = Inr \<lparr>rr_type = None, rr_category = Some ''productive'', tags = [''typed''],
                   content = [], applied_rules = [''category'']\<rparr>"
    by code_simp
  have n: "hit_count
             (ruleHits (snd (RuleEngine_apply plain_host
                               (?eng\<lparr>rules := [] @ [category_rule]\<rparr>) keyboard_record)))
             ''always'' = 0"
    by code_simp
  from exclusive_rule_stops[OF h1 h2 h3 h4] r n h1 h2 c t h4 show ?thesis by simp
qed

subsection \<open>Invalid regular expressions\<close>








section \<open>ActivityCategorizer\<close>

text \<open>An application that is in the cache gets the cached category; neither the type nor
  the URL of the record is looked at.\<close>

lemma cached_category:
  "categoryCache cz (app_key a) = Some c \<Longrightarrow> categorize h cz a ty = (c, cz)"
  by (simp add: categorize_def)

text \<open>For an application that is not in the cache a URL category, when there is one, wins
  over the category of the type and of the application lists, and is cached for the
  application.\<close>

lemma uncached_url_category:
  assumes "categoryCache cz (app_key a) = None" "truthy_str (context_url a)"
    and "categorizeByUrl h (the (context_url a)) = Some u"
  shows "categorize h cz a ty = (u, cz\<lparr>categoryCache := (categoryCache cz)(app_key a \<mapsto> u)\<rparr>)"
  using assms by (simp add: categorize_def Let_def)

lemma lower_chrome: "toLowerCase ''chrome'' = ''chrome''"
  by (simp add: toLowerCase_def lower_char_def)

text \<open>
  C10 (a record whose URL is in one of the domain sets is given the category of the
  URL, which takes precedence over the type and the application lists; a record with
  the application \<open>chrome\<close> and a youtube.com URL is entertainment): \<open>categorize\<close> looks
  the application up in the cache first, and \<open>initializeCache\<close> has put \<open>chrome\<close> there as
  neutral. A new categorizer, whatever its configuration, returns neutral for the record,
  although \<open>categorizeByUrl\<close> gives entertainment for its URL.
\<close>

theorem cached_browser_ignores_url:
  "fst (categorize h (ActivityCategorizer_new cfg) youtube_record ty) = NEUTRAL
   \<and> categorizeByUrl plain_host (the (context_url youtube_record)) = Some ENTERTAINMENT"
proof
  show "fst (categorize h (ActivityCategorizer_new cfg) youtube_record ty) = NEUTRAL"
    by (simp add: categorize_def ActivityCategorizer_new_def app_key_def youtube_record_def
        lower_chrome initializeCache_def knownApps_def)
  show "categorizeByUrl plain_host (the (context_url youtube_record)) = Some ENTERTAINMENT"
    by code_simp
qed

text \<open>The repository's test \<open>should categorize browser activity\<close> expects the category
  productive for a chrome window on github.com; no default rule matches the record, and
  the category of the parsed activity is the cached neutral.\<close>

lemma github_in_chrome_is_neutral:
  "map_option act_category
     (fst (parseActivity plain_host 1700000000500 (ActivityParser_new defaultParserConfig)
             github_record)) = Some NEUTRAL
   \<and> categorizeByUrl plain_host (the (context_url github_record)) = Some PRODUCTIVE"
  by code_simp

section \<open>ActivityParser: the quality threshold\<close>


lemma parsed_quality_score:
  assumes "fst (parseActivity h now p raw) = Some parsed"
  shows "fst (analyze h (qualityAnalyzer p) now raw) = Inr (act_quality_score parsed)"
  using assms
  by (auto simp: parseActivity_def Let_def attach_duration_def build_parsed_def
           split: prod.splits sum.splits if_splits option.splits)














text \<open>The record of the repository's test \<open>should reject low quality activities\<close>
  (a timestamp 1000000 ms in the future, empty \<open>device_id\<close> and \<open>session_id\<close>) has
  the score 0.7 and is parsed, where the test expects \<open>null\<close>.\<close>

lemma low_quality_test_record_is_accepted:
  "fst (analyze plain_host (qualityAnalyzer (ActivityParser_new defaultParserConfig))
          1700000000000 incomplete_record) = Inr (7/10)
   \<and> fst (parseActivity plain_host 1700000000000 (ActivityParser_new defaultParserConfig)
           incomplete_record) \<noteq> None"
  by code_simp

text \<open>A browser window whose URL does not parse is not parsed, whatever its score:
  \<open>extractApplicationActions\<close> calls \<open>new URL\<close> outside a \<open>try\<close>, where \<open>cleanUrl\<close>,
  \<open>categorizeByUrl\<close> and \<open>isValidUrl\<close> catch its exception.\<close>

lemma unparsable_url_is_null:
  "unparsable_browser_url plain_host bad_url_record
   \<and> fst (analyze plain_host (qualityAnalyzer (ActivityParser_new defaultParserConfig))
          1700000000500 bad_url_record) = Inr (14/15)
   \<and> fst (parseActivity plain_host 1700000000500 (ActivityParser_new defaultParserConfig)
           bad_url_record) = None"
  by code_simp

text \<open>A keyboard record whose \<open>keys_per_second\<close> is an object with a property
  \<open>toString\<close>: the analyzer throws when it compares it with 20, and the record is not
  parsed.\<close>

lemma unconvertible_speed_is_null:
  "speed_unconvertible plain_host
     (keyboard_record\<lparr>raw_data := JObj [(''keys_per_second'', JObj [(''toString'', JNum 1)])]\<rparr>)
   \<and> fst (analyze plain_host (qualityAnalyzer (ActivityParser_new defaultParserConfig))
            1700000000500
            (keyboard_record\<lparr>raw_data :=
               JObj [(''keys_per_second'', JObj [(''toString'', JNum 1)])]\<rparr>)) = Inl TypeError
   \<and> fst (parseActivity plain_host 1700000000500 (ActivityParser_new defaultParserConfig)
           (keyboard_record\<lparr>raw_data :=
              JObj [(''keys_per_second'', JObj [(''toString'', JNum 1)])]\<rparr>)) = None"
  by code_simp

section \<open>ActivityParser: durations\<close>

lemma findIndex_from_none: "list_all (\<lambda>x. \<not> P x) xs \<Longrightarrow> findIndex_from i P xs = -1"
  by (induction xs arbitrary: i) auto

text \<open>An activity whose id is not in the buffer of its session has no duration.\<close>

lemma calculateDuration_fresh:
  assumes "act_id a \<notin> set (buffered_ids sm (act_session_id a))"
  shows "calculateDuration sm a = None"
proof -
  let ?b = "case activityBuffer sm (act_session_id a) of None \<Rightarrow> [] | Some b \<Rightarrow> b"
  from assms have "list_all (\<lambda>b. \<not> act_id b = act_id a) ?b"
    by (cases "activityBuffer sm (act_session_id a)")
       (auto simp: buffered_ids_def list_all_iff image_iff)
  then have "findIndex (\<lambda>b. act_id b = act_id a) ?b = -1"
    unfolding findIndex_def by (rule findIndex_from_none)
  then show ?thesis by (simp add: calculateDuration_def Let_def)
qed

lemma parse_some_sessions:
  assumes "fst (parseActivity h now p raw) = Some parsed"
  shows "sessionManager (snd (parseActivity h now p raw)) = addActivity (sessionManager p) parsed"
  using assms
  by (auto simp: parseActivity_def Let_def split: prod.splits sum.splits if_splits)

lemma parse_null_sessions:
  assumes "fst (parseActivity h now p raw) = None"
  shows "sessionManager (snd (parseActivity h now p raw)) = sessionManager p"
  using assms
  by (auto simp: parseActivity_def Let_def split: prod.splits sum.splits if_splits)

lemma attach_fresh:
  assumes "raw_id raw \<notin> set (buffered_ids sm (raw_session_id raw))"
  shows "act_duration (attach_duration sm (build_parsed raw q ty ex cat rr)) = None"
proof -
  have "calculateDuration sm (build_parsed raw q ty ex cat rr) = None"
    using assms by (intro calculateDuration_fresh) (simp add: build_parsed_def)
  then show ?thesis by (simp add: attach_duration_def build_parsed_def)
qed

lemma parse_fresh_duration:
  assumes "raw_id raw \<notin> set (buffered_ids (sessionManager p) (raw_session_id raw))"
    and "fst (parseActivity h now p raw) = Some parsed"
  shows "act_duration parsed = None"
  using assms(2) attach_fresh[OF assms(1)]
  by (auto simp: parseActivity_def Let_def split: prod.splits sum.splits if_splits)

lemma addActivity_no_durations:
  assumes "no_durations sm" "act_duration a = None"
  shows "no_durations (addActivity sm a)"
  using assms
  by (auto simp: no_durations_def addActivity_def bufferActivity_def createSession_def Let_def
           split: option.splits if_splits)

lemma parse_no_durations:
  assumes "no_durations (sessionManager p)"
    and "raw_id raw \<notin> set (buffered_ids (sessionManager p) (raw_session_id raw))"
  shows "no_durations (sessionManager (snd (parseActivity h now p raw)))"
proof (cases "fst (parseActivity h now p raw)")
  case None
  then show ?thesis using assms(1) by (simp add: parse_null_sessions)
next
  case (Some parsed)
  from parse_some_sessions[OF Some]
  have "sessionManager (snd (parseActivity h now p raw)) = addActivity (sessionManager p) parsed" .
  with addActivity_no_durations[OF assms(1) parse_fresh_duration[OF assms(2) Some]]
  show ?thesis by simp
qed

lemma feed_no_durations:
  "fresh_ids h p inputs \<Longrightarrow> no_durations (sessionManager p) \<Longrightarrow>
   no_durations (sessionManager (feed h p inputs))"
proof (induction inputs arbitrary: p)
  case Nil
  then show ?case by simp
next
  case (Cons input rest)
  obtain now raw where i: "input = (now, raw)" by (cases input)
  from Cons.prems(1)
  have f: "raw_id raw \<notin> set (buffered_ids (sessionManager p) (raw_session_id raw))"
    and r: "fresh_ids h (snd (parseActivity h now p raw)) rest"
    by (simp_all add: i)
  from Cons.IH[OF r parse_no_durations[OF Cons.prems(2) f]] show ?case by (simp add: i)
qed

lemma new_no_durations: "no_durations (sessionManager (ActivityParser_new cfg))"
  by (simp add: no_durations_def ActivityParser_new_def SessionManager_new_def)

text \<open>Records with distinct ids, fed to a new parser, all have an id that is not in
  the buffer of their session when their call starts.\<close>

lemma kept_subset: "set (if length xs > 100 then tl xs else xs) \<subseteq> set xs"
  by (cases xs) auto

lemma buffered_ids_addActivity:
  "set (buffered_ids (addActivity sm a) sessionId)
     \<subseteq> insert (act_id a) (set (buffered_ids sm sessionId))"
proof (cases "sessionId = act_session_id a")
  case False
  then have "buffered_ids (addActivity sm a) sessionId = buffered_ids sm sessionId"
    by (simp add: buffered_ids_def addActivity_def bufferActivity_def Let_def)
  then show ?thesis by (simp add: subset_insertI)
next
  case True
  define b where "b = (case activityBuffer sm (act_session_id a) of None \<Rightarrow> [] | Some b \<Rightarrow> b)"
  have "buffered_ids (addActivity sm a) sessionId
          = map act_id (if length (b @ [a]) > 100 then tl (b @ [a]) else b @ [a])"
    using True by (simp add: buffered_ids_def addActivity_def bufferActivity_def Let_def b_def)
  moreover have "set (if length (b @ [a]) > 100 then tl (b @ [a]) else b @ [a]) \<subseteq> set (b @ [a])"
    by (rule kept_subset)
  moreover have "buffered_ids sm sessionId = map act_id b"
    using True by (simp add: buffered_ids_def b_def)
  ultimately show ?thesis by auto
qed

lemma parsed_id:
  assumes "fst (parseActivity h now p raw) = Some parsed"
  shows "act_id parsed = raw_id raw"
  using assms
  by (auto simp: parseActivity_def Let_def attach_duration_def build_parsed_def
           split: prod.splits sum.splits if_splits option.splits)

lemma buffered_ids_parse:
  "set (buffered_ids (sessionManager (snd (parseActivity h now p raw))) sessionId)
     \<subseteq> insert (raw_id raw) (set (buffered_ids (sessionManager p) sessionId))"
proof (cases "fst (parseActivity h now p raw)")
  case None
  then show ?thesis by (auto simp: parse_null_sessions)
next
  case (Some parsed)
  with buffered_ids_addActivity[of "sessionManager p" parsed sessionId] parsed_id[OF Some]
  show ?thesis by (simp add: parse_some_sessions[OF Some])
qed

lemma distinct_ids_fresh_from:
  "distinct (map (\<lambda>i. raw_id (snd i)) inputs) \<Longrightarrow>
   (\<And>sessionId. set (buffered_ids (sessionManager p) sessionId) \<subseteq> seen) \<Longrightarrow>
   seen \<inter> set (map (\<lambda>i. raw_id (snd i)) inputs) = {} \<Longrightarrow>
   fresh_ids h p inputs"
proof (induction inputs arbitrary: p seen)
  case Nil
  show ?case by simp
next
  case (Cons input rest)
  obtain now raw where i: "input = (now, raw)" by (cases input)
  let ?p = "snd (parseActivity h now p raw)"
  have a: "raw_id raw \<notin> set (buffered_ids (sessionManager p) (raw_session_id raw))"
    using Cons.prems(2)[of "raw_session_id raw"] Cons.prems(3) by (auto simp: i)
  have b: "\<And>sessionId. set (buffered_ids (sessionManager ?p) sessionId) \<subseteq> insert (raw_id raw) seen"
    using buffered_ids_parse[of h now p raw] Cons.prems(2) by blast
  have c: "insert (raw_id raw) seen \<inter> set (map (\<lambda>i. raw_id (snd i)) rest) = {}"
    using Cons.prems(1,3) by (auto simp: i)
  from Cons.prems(1) have d: "distinct (map (\<lambda>i. raw_id (snd i)) rest)" by simp
  from Cons.IH[OF d b c] a show ?case by (simp add: i)
qed

lemma distinct_ids_fresh:
  assumes "distinct (map (\<lambda>i. raw_id (snd i)) inputs)"
  shows "fresh_ids h (ActivityParser_new cfg) inputs"
  by (rule distinct_ids_fresh_from[OF assms, of _ "{}"])
     (simp_all add: buffered_ids_def ActivityParser_new_def SessionManager_new_def)

section \<open>ActivityParser: plain keys\<close>

text \<open>The types that type inference gives and the categories of the categorizer are
  plain keys.\<close>

lemma plain_constants:
  "plain_key TYPING" "plain_key CLICKING" "plain_key SCROLLING" "plain_key READING"
  "plain_key CODING" "plain_key BROWSING" "plain_key COMMUNICATING" "plain_key DOCUMENTING"
  "plain_key IDLE" "plain_key PRODUCTIVE" "plain_key NEUTRAL" "plain_key DISTRACTING"
  "plain_key BREAK" "plain_key COMMUNICATION" "plain_key LEARNING" "plain_key ENTERTAINMENT"
  by (simp_all add: plain_key_def Object_prototype_members_def TYPING_def CLICKING_def
      SCROLLING_def READING_def CODING_def BROWSING_def COMMUNICATING_def DOCUMENTING_def
      IDLE_def PRODUCTIVE_def NEUTRAL_def DISTRACTING_def BREAK_def COMMUNICATION_def
      LEARNING_def ENTERTAINMENT_def)

lemma determineActivityType_plain: "determineActivityType h raw = Inr ty \<Longrightarrow> plain_key ty"
  by (auto simp: determineActivityType_def plain_constants split: option.splits if_splits)

lemma categorizeByType_plain: "plain_key (categorizeByType ty)"
  by (simp add: categorizeByType_def plain_constants)

lemma categorizeByApplication_plain:
  "categorizeByApplication cfg app = Some c \<Longrightarrow> plain_key c"
  by (auto simp: categorizeByApplication_def plain_constants split: if_splits)

lemma categorizeByUrl_plain: "categorizeByUrl h u = Some c \<Longrightarrow> plain_key c"
  by (auto simp: categorizeByUrl_def Let_def plain_constants split: option.splits if_splits)

lemma categorize_plain:
  assumes "plain_cache cz" "categorize h cz a ty = (c, cz')"
  shows "plain_key c \<and> plain_cache cz'"
proof (cases "categoryCache cz (app_key a)")
  case (Some cached)
  with assms show ?thesis by (auto simp: categorize_def Let_def plain_cache_def)
next
  case None
  let ?byApp = "case categorizeByApplication (cat_config cz) (app_key a) of
                  None \<Rightarrow> categorizeByType ty | Some appCategory \<Rightarrow> appCategory"
  let ?byUrl = "if truthy_str (context_url a)
                then (case categorizeByUrl h (the (context_url a)) of
                        None \<Rightarrow> ?byApp | Some urlCategory \<Rightarrow> urlCategory)
                else ?byApp"
  have p1: "plain_key ?byApp"
    by (cases "categorizeByApplication (cat_config cz) (app_key a)")
       (simp_all add: categorizeByType_plain categorizeByApplication_plain)
  have p2: "plain_key ?byUrl"
    using p1
    by (cases "categorizeByUrl h (the (context_url a))") (simp_all add: categorizeByUrl_plain)
  from None
  have e: "categorize h cz a ty
             = (?byUrl, cz\<lparr>categoryCache := (categoryCache cz)(app_key a \<mapsto> ?byUrl)\<rparr>)"
    by (simp add: categorize_def Let_def)
  from assms(2)[unfolded e] have "c = ?byUrl"
    and "cz' = cz\<lparr>categoryCache := (categoryCache cz)(app_key a \<mapsto> ?byUrl)\<rparr>"
    by auto
  with p2 assms(1) show ?thesis by (auto simp: plain_cache_def)
qed

lemma new_cache_plain: "plain_cache (ActivityCategorizer_new cfg)"
proof -
  have "plain_key c" if "map_of knownApps app = Some c" for app c
  proof -
    from that have "c \<in> snd ` set knownApps" by (force dest: map_of_SomeD)
    then show ?thesis by (auto simp: knownApps_def plain_constants)
  qed
  then show ?thesis by (simp add: plain_cache_def ActivityCategorizer_new_def initializeCache_def)
qed

text \<open>With rules whose \<open>set_type\<close> and \<open>set_category\<close> values are plain keys, the type and
  the category of a rule result are plain keys.\<close>

lemma applyAction_plain:
  "plain_action action \<Longrightarrow> plain_result result \<Longrightarrow> applyAction h action a result = Inr r \<Longrightarrow>
   plain_result r"
  by (cases action)
     (auto simp: plain_action_def plain_result_def extractContent_def
           split: jsval.splits option.splits if_splits prod.splits)

lemma applyActions_plain:
  "list_all plain_action acts \<Longrightarrow> plain_result result \<Longrightarrow>
   applyActions h acts a result = Inr r \<Longrightarrow> plain_result r"
proof (induction acts arbitrary: result)
  case Nil
  then show ?case by simp
next
  case (Cons action rest)
  from Cons.prems(3) obtain r1 where r1: "applyAction h action a result = Inr r1"
    and r2: "applyActions h rest a r1 = Inr r"
    by (auto split: sum.splits)
  from Cons.prems(1) have pa: "plain_action action" and pr: "list_all plain_action rest"
    by simp_all
  from Cons.IH[OF pr applyAction_plain[OF pa Cons.prems(2) r1] r2] show ?case .
qed

lemma apply_loop_plain:
  "plain_rules rs \<Longrightarrow> plain_result result \<Longrightarrow>
   apply_loop h rs a result hits = (Inr res, hits') \<Longrightarrow> plain_result res"
proof (induction rs arbitrary: result hits)
  case Nil
  then show ?case by simp
next
  case (Cons rule rest)
  from Cons.prems(1) have pa: "list_all plain_action (actions rule)" and pr: "plain_rules rest"
    by (simp_all add: plain_rules_def)
  show ?case
  proof (cases "enabled rule \<and> evaluateConditions h (conditions rule) a = Inr True")
    case False
    with Cons.prems(3) have "apply_loop h rest a result hits = (Inr res, hits')"
      by (auto split: sum.splits if_splits)
    from Cons.IH[OF pr Cons.prems(2) this] show ?thesis .
  next
    case True
    with Cons.prems(3) obtain r1 where r1: "applyActions h (actions rule) a result = Inr r1"
      by (auto split: sum.splits)
    let ?r2 = "r1\<lparr>applied_rules := applied_rules r1 @ [rule_id rule]\<rparr>"
    let ?h2 = "recordHit hits (rule_id rule)"
    from applyActions_plain[OF pa Cons.prems(2) r1] have p2: "plain_result ?r2"
      by (simp add: plain_result_def)
    show ?thesis
    proof (cases "isExclusiveRule rule")
      case e: True
      with True r1 Cons.prems(3) have "res = ?r2" by (auto simp: Let_def)
      with p2 show ?thesis by simp
    next
      case e: False
      with True r1 Cons.prems(3) have "apply_loop h rest a ?r2 ?h2 = (Inr res, hits')"
        by (auto simp: Let_def)
      from Cons.IH[OF pr p2 this] show ?thesis .
    qed
  qed
qed

lemma RuleEngine_apply_plain:
  assumes "plain_rules (rules eng)" "RuleEngine_apply h eng a = (Inr res, eng')"
  shows "plain_result res"
proof -
  from assms(2) obtain hits'
    where "apply_loop h (rules eng) a empty_result (ruleHits eng) = (Inr res, hits')"
    by (auto simp: RuleEngine_apply_def split: prod.splits)
  from apply_loop_plain[OF assms(1) _ this] show ?thesis
    by (simp add: plain_result_def empty_result_def)
qed

lemma RuleEngine_apply_rules: "RuleEngine_apply h eng a = (r, eng') \<Longrightarrow> rules eng' = rules eng"
  by (auto simp: RuleEngine_apply_def split: prod.splits)

lemma sort_plain: "plain_rules rs \<Longrightarrow> plain_rules (sortRulesByPriority rs)"
  by (simp add: plain_rules_def sortRulesByPriority_def list_all_iff)

lemma or_else_plain:
  "(case x of None \<Rightarrow> True | Some v \<Rightarrow> plain_key v) \<Longrightarrow> plain_key y \<Longrightarrow> plain_key (or_else x y)"
  by (cases x) (simp_all add: or_else_def)

lemma build_parsed_plain:
  assumes "plain_result rr" "plain_key ty" "plain_key c"
  shows "plain_keys (attach_duration sm (build_parsed raw q ty ex c rr))"
proof -
  have "act_type (attach_duration sm (build_parsed raw q ty ex c rr)) = or_else (rr_type rr) ty"
    "act_category (attach_duration sm (build_parsed raw q ty ex c rr))
       = or_else (rr_category rr) c"
    by (simp_all add: attach_duration_def build_parsed_def split: option.splits)
  with assms show ?thesis by (simp add: plain_keys_def plain_result_def or_else_plain)
qed

lemma parse_plain:
  assumes "plain_rules (rules (ruleEngine p))" "plain_cache (categorizer p)"
    and "fst (parseActivity h now p raw) = Some parsed"
  shows "plain_keys parsed"
proof -
  obtain c cz where cat: "\<And>ty. categorize h (categorizer p) raw ty
                               = (fst (categorize h (categorizer p) raw ty),
                                  snd (categorize h (categorizer p) raw ty))"
    by simp
  from assms(3) obtain q ty ex rr eng'
    where ty: "determineActivityType h raw = Inr ty"
      and rr: "RuleEngine_apply h (ruleEngine p) raw = (Inr rr, eng')"
      and pa: "parsed = attach_duration (sessionManager p)
                 (build_parsed raw q ty ex (fst (categorize h (categorizer p) raw ty)) rr)"
    by (auto simp: parseActivity_def Let_def split: prod.splits sum.splits if_splits)
  from categorize_plain[OF assms(2), of h raw ty] have "plain_key (fst (categorize h (categorizer p) raw ty))"
    by (cases "categorize h (categorizer p) raw ty") simp
  with build_parsed_plain[OF RuleEngine_apply_plain[OF assms(1) rr] determineActivityType_plain[OF ty]]
    pa
  show ?thesis by simp
qed

lemma parse_keeps_rules:
  "rules (ruleEngine (snd (parseActivity h now p raw))) = rules (ruleEngine p)"
  by (auto simp: parseActivity_def Let_def dest: RuleEngine_apply_rules
           split: prod.splits sum.splits)

lemma parse_keeps_plain_cache:
  "plain_cache (categorizer p) \<Longrightarrow> plain_cache (categorizer (snd (parseActivity h now p raw)))"
  by (auto simp: parseActivity_def Let_def dest: categorize_plain
           split: prod.splits sum.splits)

lemma addActivity_plain:
  assumes "plain_sessions sm" "plain_keys a"
  shows "plain_sessions (addActivity sm a)"
  using assms
  by (auto simp: plain_sessions_def addActivity_def bufferActivity_def createSession_def Let_def
           split: option.splits if_splits)

lemma parse_plain_sessions:
  assumes "plain_rules (rules (ruleEngine p))" "plain_cache (categorizer p)"
    and "plain_sessions (sessionManager p)"
  shows "plain_sessions (sessionManager (snd (parseActivity h now p raw)))"
proof (cases "fst (parseActivity h now p raw)")
  case None
  then show ?thesis using assms(3) by (simp add: parse_null_sessions)
next
  case (Some parsed)
  from addActivity_plain[OF assms(3) parse_plain[OF assms(1,2) Some]]
  show ?thesis by (simp add: parse_some_sessions[OF Some])
qed

lemma feed_plain_sessions:
  "plain_rules (rules (ruleEngine p)) \<Longrightarrow> plain_cache (categorizer p) \<Longrightarrow>
   plain_sessions (sessionManager p) \<Longrightarrow> plain_sessions (sessionManager (feed h p inputs))"
proof (induction inputs arbitrary: p)
  case Nil
  then show ?case by simp
next
  case (Cons input rest)
  obtain now raw where i: "input = (now, raw)" by (cases input)
  let ?p = "snd (parseActivity h now p raw)"
  have "plain_rules (rules (ruleEngine ?p))" using Cons.prems(1) by (simp add: parse_keeps_rules)
  from Cons.IH[OF this parse_keeps_plain_cache[OF Cons.prems(2)]
         parse_plain_sessions[OF Cons.prems]]
  show ?case by (simp add: i)
qed

lemma new_plain_sessions:
  assumes "plain_rules (cfg_rules cfg)"
  shows "plain_sessions (sessionManager (feed h (ActivityParser_new cfg) inputs))"
proof (rule feed_plain_sessions)
  show "plain_rules (rules (ruleEngine (ActivityParser_new cfg)))"
    using sort_plain[OF assms] by (simp add: ActivityParser_new_def RuleEngine_new_def)
  show "plain_cache (categorizer (ActivityParser_new cfg))"
    by (simp add: ActivityParser_new_def new_cache_plain)
  show "plain_sessions (sessionManager (ActivityParser_new cfg))"
    by (simp add: plain_sessions_def ActivityParser_new_def SessionManager_new_def)
qed

section \<open>ActivityParser: the summary of the sessions it feeds\<close>

lemma all_zero_values_sum: "all_zero kvs \<Longrightarrow> values_sum kvs = Some 0"
  by (induction kvs) (auto simp: all_zero_def)

lemma all_zero_bucket: "all_zero kvs \<Longrightarrow> bucket kvs k = Number 0"
  by (induction kvs) (auto simp: all_zero_def bucket_def)

lemma all_zero_set_key: "all_zero kvs \<Longrightarrow> all_zero (set_key k (Number 0) kvs)"
  by (induction kvs) (auto simp: all_zero_def)

lemma all_zero_add_to_key:
  assumes "plain_key k" "all_zero kvs"
  shows "all_zero (add_to_key h k 0 kvs)"
proof -
  from add_to_key_plain[OF assms(1) all_zero_values_sum[OF assms(2)], of h 0]
  obtain n where "bucket kvs k = Number n" "add_to_key h k 0 kvs = set_key k (Number (n + 0)) kvs"
    by auto
  with all_zero_bucket[OF assms(2), of k] all_zero_set_key[OF assms(2), of k]
  show ?thesis by simp
qed

lemma all_zero_add_to_entry: "all_zero_entries kvs \<Longrightarrow> all_zero_entries (add_to_entry k 0 kvs)"
  by (induction kvs) (auto simp: all_zero_entries_def)

text \<open>Without durations the totals and the durations of the applications stay 0; the
  buckets stay 0 when the types and the categories are plain keys.\<close>

lemma summary_fold_zero_totals:
  "list_all (\<lambda>a. act_duration a = None) as \<Longrightarrow>
   acc_activeDuration acc = 0 \<Longrightarrow> acc_idleDuration acc = 0 \<Longrightarrow>
   all_zero_entries (acc_applicationDurations acc) \<Longrightarrow>
   acc_activeDuration (foldl (summary_step h) acc as) = 0
   \<and> acc_idleDuration (foldl (summary_step h) acc as) = 0
   \<and> all_zero_entries (acc_applicationDurations (foldl (summary_step h) acc as))"
proof (induction as arbitrary: acc)
  case Nil
  then show ?case by simp
next
  case (Cons a as)
  from Cons.prems(1) have d: "duration_or_0 a = 0"
    and rest: "list_all (\<lambda>a. act_duration a = None) as"
    by (simp_all add: duration_or_0_def)
  have s: "acc_activeDuration (summary_step h acc a) = 0"
    "acc_idleDuration (summary_step h acc a) = 0"
    "all_zero_entries (acc_applicationDurations (summary_step h acc a))"
    using Cons.prems(2-) d by (simp_all add: summary_step_def Let_def all_zero_add_to_entry)
  from Cons.IH[OF rest s] show ?case by simp
qed

lemma summary_fold_zero_buckets:
  "list_all (\<lambda>a. act_duration a = None) as \<Longrightarrow> list_all plain_keys as \<Longrightarrow>
   all_zero (acc_activityBreakdown acc) \<Longrightarrow> all_zero (acc_categoryBreakdown acc) \<Longrightarrow>
   all_zero (acc_activityBreakdown (foldl (summary_step h) acc as))
   \<and> all_zero (acc_categoryBreakdown (foldl (summary_step h) acc as))"
proof (induction as arbitrary: acc)
  case Nil
  then show ?case by simp
next
  case (Cons a as)
  from Cons.prems(1) have d: "duration_or_0 a = 0"
    and rest: "list_all (\<lambda>a. act_duration a = None) as"
    by (simp_all add: duration_or_0_def)
  from Cons.prems(2) have pa: "plain_keys a" and prest: "list_all plain_keys as"
    by simp_all
  from pa have p: "plain_key (act_type a)" "plain_key (act_category a)"
    by (simp_all add: plain_keys_def)
  have "all_zero (add_to_key h (act_type a) 0 (acc_activityBreakdown acc))"
    "all_zero (add_to_key h (act_category a) 0 (acc_categoryBreakdown acc))"
    using Cons.prems(3,4) p by (simp_all add: all_zero_add_to_key)
  then have s: "all_zero (acc_activityBreakdown (summary_step h acc a))"
    "all_zero (acc_categoryBreakdown (summary_step h acc a))"
    using d by (auto simp: summary_step_def Let_def)
  from Cons.IH[OF rest prest s] show ?case by simp
qed

lemma weighted_zero:
  "all_zero kvs \<Longrightarrow> snd (weighted_categories h kvs (x, Number 0)) = Number 0"
  by (induction kvs arbitrary: x) (auto simp: all_zero_def)

lemma all_zero_own_entries: "all_zero kvs \<Longrightarrow> all_zero (own_entries kvs)"
  by (auto simp: all_zero_def own_entries_def list_all_iff)

lemma productivity_zero:
  assumes "all_zero kvs"
  shows "calculateProductivityScore h kvs a t = Some 0"
  using weighted_zero[OF all_zero_own_entries[OF assms], of h "Some 0"]
  by (simp add: calculateProductivityScore_def Let_def)

lemma top_zero:
  assumes "all_zero_entries apps"
  shows "list_all (\<lambda>t. app_duration t = 0) (topApplications as apps)"
proof -
  define es where "es = take 5 (sort_key (\<lambda>e. - snd e) apps)"
  have "set es \<subseteq> set (sort_key (\<lambda>e. - snd e) apps)"
    unfolding es_def by (rule set_take_subset)
  then have "set es \<subseteq> set apps" by simp
  with assms have z: "list_all (\<lambda>e. snd e = 0) es"
    unfolding all_zero_entries_def list_all_iff by blast
  have "topApplications as apps =
          map (\<lambda>(name, duration).
                 \<lparr>app_name = name, app_duration = duration,
                  activity_count = length (filter (\<lambda>a. act_application a = name) as),
                  app_category = getApplicationCategory as name\<rparr>) es"
    unfolding topApplications_def es_def ..
  then show ?thesis using z
    by (induction es) (auto simp: list_all_iff)
qed

text \<open>
  C2 (a record whose id is not yet in the duration buffer of its session is parsed into
  an activity without a duration, because \<open>calculateDuration\<close> runs before \<open>addActivity\<close>
  has buffered the activity; so every duration-based aggregate of the summary is 0 for
  sessions fed through \<open>parseActivity\<close> only): the first part for one call on any parser;
  the second for a new parser of any configuration and any sequence of calls in which
  every record has, when its call starts, an id that is not in the buffer of its
  session. Then the active and the idle duration and the duration of every top
  application are 0 in the summary of every session; every bucket of the type and of the
  category breakdown and the productivity score are 0 when the values that the
  \<open>set_type\<close> and \<open>set_category\<close> actions of the configured rules set are plain keys.
\<close>

theorem no_duration_through_parseActivity:
  "(raw_id raw \<notin> set (buffered_ids (sessionManager p) (raw_session_id raw))
      \<and> fst (parseActivity h now p raw) = Some parsed
    \<longrightarrow> act_duration parsed = None)
   \<and> (fresh_ids h (ActivityParser_new cfg) inputs
      \<and> getSessionSummary h (sessionManager (feed h (ActivityParser_new cfg) inputs)) sessionId
          = Some s
    \<longrightarrow> active_duration s = 0 \<and> idle_duration s = 0
        \<and> list_all (\<lambda>t. app_duration t = 0) (top_applications s)
        \<and> (plain_rules (cfg_rules cfg)
           \<longrightarrow> all_zero (activity_breakdown s) \<and> all_zero (category_breakdown s)
               \<and> productivity_score s = Some 0))"
proof (intro conjI impI)
  assume "raw_id raw \<notin> set (buffered_ids (sessionManager p) (raw_session_id raw))
      \<and> fst (parseActivity h now p raw) = Some parsed"
  then show "act_duration parsed = None" using parse_fresh_duration by blast
next
  let ?sm = "sessionManager (feed h (ActivityParser_new cfg) inputs)"
  let ?init = "\<lparr>acc_activeDuration = 0, acc_idleDuration = 0, acc_activityBreakdown = [],
                acc_categoryBreakdown = [], acc_applicationDurations = []\<rparr>"
  assume a: "fresh_ids h (ActivityParser_new cfg) inputs
             \<and> getSessionSummary h ?sm sessionId = Some s"
  then have n: "no_durations ?sm" using feed_no_durations new_no_durations by blast
  from a obtain session where se: "sessions ?sm sessionId = Some session"
    by (auto simp: getSessionSummary_def split: option.splits)
  with n have d: "list_all (\<lambda>a. act_duration a = None) (activities session)"
    by (simp add: no_durations_def)
  let ?acc = "foldl (summary_step h) ?init (activities session)"
  have z: "acc_activeDuration ?acc = 0 \<and> acc_idleDuration ?acc = 0
     \<and> all_zero_entries (acc_applicationDurations ?acc)"
    by (rule summary_fold_zero_totals[OF d]) (simp_all add: all_zero_entries_def)
  from a se have s: "active_duration s = acc_activeDuration ?acc"
    "idle_duration s = acc_idleDuration ?acc"
    "category_breakdown s = acc_categoryBreakdown ?acc"
    "activity_breakdown s = acc_activityBreakdown ?acc"
    "top_applications s = topApplications (activities session) (acc_applicationDurations ?acc)"
    "productivity_score s = calculateProductivityScore h (acc_categoryBreakdown ?acc)
        (acc_activeDuration ?acc)
        (case end_time session of None \<Rightarrow> 0 | Some e \<Rightarrow> e - start_time session)"
    by (auto simp: getSessionSummary_def summary_loop_def Let_def split: if_splits)
  show "active_duration s = 0" "idle_duration s = 0"
    "list_all (\<lambda>t. app_duration t = 0) (top_applications s)"
    using z by (simp_all add: s top_zero)
  assume "plain_rules (cfg_rules cfg)"
  from new_plain_sessions[OF this, of h inputs] se
  have "list_all plain_keys (activities session)" by (simp add: plain_sessions_def)
  from summary_fold_zero_buckets[OF d this, of ?init h]
  have b: "all_zero (acc_activityBreakdown ?acc) \<and> all_zero (acc_categoryBreakdown ?acc)"
    by (simp add: all_zero_def)
  then show "all_zero (activity_breakdown s)" "all_zero (category_breakdown s)"
    "productivity_score s = Some 0"
    by (simp_all add: s productivity_zero)
qed

theorem no_duration_through_parseActivity_witness:
  "fresh_ids plain_host (ActivityParser_new defaultParserConfig) example_feed
   \<and> plain_rules (cfg_rules defaultParserConfig)
   \<and> (\<exists>parsed.
        fst (parseActivity plain_host 1700000000500 (ActivityParser_new defaultParserConfig)
               keyboard_record) = Some parsed
        \<and> act_duration parsed = None)
   \<and> (\<exists>s. getSessionSummary plain_host
              (sessionManager (feed plain_host (ActivityParser_new defaultParserConfig)
                                 example_feed)) ''session-1'' = Some s
          \<and> total_duration s = 1000
          \<and> map fst (activity_breakdown s) = [TYPING, CLICKING]
          \<and> active_duration s = 0 \<and> idle_duration s = 0
          \<and> all_zero (activity_breakdown s) \<and> all_zero (category_breakdown s)
          \<and> productivity_score s = Some 0)"
proof -
  let ?p = "ActivityParser_new defaultParserConfig"
  let ?sm = "sessionManager (feed plain_host ?p example_feed)"
  have f: "fresh_ids plain_host ?p example_feed" by code_simp
  have pl: "plain_rules (cfg_rules defaultParserConfig)" by code_simp
  have i: "raw_id keyboard_record
             \<notin> set (buffered_ids (sessionManager ?p) (raw_session_id keyboard_record))"
    by code_simp
  have "fst (parseActivity plain_host 1700000000500 ?p keyboard_record) \<noteq> None" by code_simp
  then obtain parsed
    where parsed: "fst (parseActivity plain_host 1700000000500 ?p keyboard_record) = Some parsed"
    by blast
  have "getSessionSummary plain_host ?sm ''session-1'' \<noteq> None" by code_simp
  then obtain s where s: "getSessionSummary plain_host ?sm ''session-1'' = Some s" by blast
  have "map_option total_duration (getSessionSummary plain_host ?sm ''session-1'') = Some 1000"
    and "map_option (map fst \<circ> activity_breakdown) (getSessionSummary plain_host ?sm ''session-1'')
           = Some [TYPING, CLICKING]"
    by code_simp+
  with s have t: "total_duration s = 1000" "map fst (activity_breakdown s) = [TYPING, CLICKING]"
    by simp_all
  from no_duration_through_parseActivity
         [of keyboard_record ?p plain_host 1700000000500 parsed defaultParserConfig
             example_feed "''session-1''" s]
       f pl i parsed s t
  show ?thesis by simp
qed

text \<open>
  The claim C2 fails at a configuration with a rule that sets the category
  \<open>constructor\<close>: the two records of the feed are parsed without a duration, and in the
  summary of their session the bucket of the category is not 0 but a string, the text
  of the inherited function \<open>Object\<close> followed by the two durations 0, and the
  productivity score is NaN.
\<close>

theorem constructor_category_is_a_string:
  "fresh_ids plain_host constructor_parser example_feed
   \<and> map_option category_breakdown
       (getSessionSummary plain_host
          (sessionManager (feed plain_host constructor_parser example_feed)) ''session-1'')
     = Some [(''constructor'', Text ''function Object() { [native code] }00'')]
   \<and> map_option productivity_score
       (getSessionSummary plain_host
          (sessionManager (feed plain_host constructor_parser example_feed)) ''session-1'')
     = Some None"
  by code_simp
end
